theory Spec2Isabelle
  imports Main "HOL-Library.Multiset"
begin

section \<open>Inventra: stock ledger, status derivation, audits and notifications\<close>

text \<open>
  A shallow embedding of the Express/Mongoose back end: the documents of each collection
  are records, a collection is the list of its documents, and a request handler is a
  function from the request and the database to a reply and the database it leaves.

  Conventions of the model.
  \<^item> An ObjectId is modelled by its string rendering, which is what the handlers compare
    (\<^verbatim>\<open>recipient.toString() !== recipientId.toString()\<close>) and what the sentinel
    \<^verbatim>\<open>'admin-hardcoded'\<close> is compared with.
  \<^item> A JavaScript Number that holds a count or an amount is an \<open>int\<close>: the model covers
    the Numbers that are integers. Where a handler adds two of them the sum is rounded as
    a double is.
  \<^item> The clock (\<^verbatim>\<open>Date.now()\<close>), the ObjectIds that the driver allots to new
    documents, the locale's date format and the texts of the engine's TypeError and of the
    ODM's cast errors are the environment of a request.
  \<^item> The database itself does not fail; what can fail is a schema validator, a lookup,
    or a check of the handler, and each such failure is a branch of the model.
\<close>

type_synonym object_id = string

record env =
  now :: nat
  fresh :: "nat \<Rightarrow> object_id"
  locale_date :: "nat \<Rightarrow> string"
  type_error :: string
  cast_failed :: "string \<Rightarrow> string"

subsection \<open>Template literals\<close>

definition digit_char :: "nat \<Rightarrow> char" where
  "digit_char d = char_of (48 + d)"

fun show_nat :: "nat \<Rightarrow> string" where
  "show_nat n = (if n < 10 then [digit_char n] else show_nat (n div 10) @ [digit_char (n mod 10)])"

definition show_int :: "int \<Rightarrow> string" where
  "show_int i = (if i < 0 then CHR ''-'' # show_nat (nat (- i)) else show_nat (nat i))"

fun join :: "string \<Rightarrow> string list \<Rightarrow> string" where
  "join sep [] = []"
| "join sep [x] = x"
| "join sep (x # y # ys) = x @ sep @ join sep (y # ys)"

text \<open>JavaScript's \<^verbatim>\<open>trim\<close>, which the schema's \<^verbatim>\<open>trim: true\<close> applies to a string.\<close>

definition is_space :: "char \<Rightarrow> bool" where
  "is_space c = (c \<in> set [CHR '' '', CHR 0x09, CHR 0x0A, CHR 0x0B, CHR 0x0C, CHR 0x0D])"

definition trim :: "string \<Rightarrow> string" where
  "trim s = rev (dropWhile is_space (rev (dropWhile is_space s)))"

subsection \<open>Values of a request body, and Numbers\<close>

text \<open>
  \<^verbatim>\<open>req.body\<close> is parsed JSON and the handlers do not check the type of a field: a
  quantity arrives as a number or as a string.
\<close>

datatype js_value = JNum int | JStr string

text \<open>\<^verbatim>\<open>!v\<close>: true of the number 0 and of the empty string.\<close>

definition falsy :: "js_value \<Rightarrow> bool" where
  "falsy v = (case v of JNum n \<Rightarrow> n = 0 | JStr s \<Rightarrow> s = [])"

text \<open>
  Rounding to the nearest double, ties to even: an integer of at most 53 bits is a double;
  a longer one keeps its 53 leading bits. (Beyond the largest double, near \<open>2 ^ 1024\<close>, the
  engine gives Infinity; the model does not go there.)
\<close>

function bit_length :: "int \<Rightarrow> nat" where
  "bit_length n = (if n \<le> 0 then 0 else Suc (bit_length (n div 2)))"
  by pat_completeness auto
termination
  by (relation "measure nat") auto

definition round_double :: "int \<Rightarrow> int" where
  "round_double x =
     (let a = \<bar>x\<bar>; k = bit_length a
      in if k \<le> 53 then x
         else (let m = 2 ^ (k - 53); q = a div m; r = a mod m;
                   q' = (if 2 * r > m \<or> (2 * r = m \<and> odd q) then q + 1 else q)
               in sgn x * (q' * m)))"

text \<open>
  The number that a string stands for (\<^verbatim>\<open>Number(s)\<close>): white space around it is skipped,
  the empty string is 0, and a decimal numeral with an optional sign is its value. \<open>None\<close>
  is NaN. Numerals with a fraction, an exponent or a radix prefix, and \<^verbatim>\<open>Infinity\<close>, are
  not integers or not written in decimal; the model reads them as it reads any other text.
\<close>

definition is_digit :: "char \<Rightarrow> bool" where
  "is_digit c = ((48::int) \<le> of_char c \<and> of_char c \<le> (57::int))"

definition digits_value :: "string \<Rightarrow> int" where
  "digits_value s = foldl (\<lambda>acc c. 10 * acc + (of_char c - 48)) 0 s"

definition numeral_value :: "string \<Rightarrow> int option" where
  "numeral_value s = (if s \<noteq> [] \<and> list_all is_digit s then Some (digits_value s) else None)"

definition string_to_number :: "string \<Rightarrow> int option" where
  "string_to_number s =
     (case trim s of
        [] \<Rightarrow> Some 0
      | c # cs \<Rightarrow>
          if c = CHR ''-'' then map_option (\<lambda>n. round_double (- n)) (numeral_value cs)
          else if c = CHR ''+'' then map_option round_double (numeral_value cs)
          else map_option round_double (numeral_value (c # cs)))"

text \<open>
  \<^verbatim>\<open>Number(v)\<close>, which is what a comparison with a number and Mongoose's cast of a value
  to a Number path compute. (Mongoose casts the empty string to null instead; no handler
  of the model hands it the empty string.)
\<close>

definition to_number :: "js_value \<Rightarrow> int option" where
  "to_number v = (case v of JNum n \<Rightarrow> Some n | JStr s \<Rightarrow> string_to_number s)"

text \<open>\<^verbatim>\<open>v <= 0\<close>: false when \<open>v\<close> is not a number.\<close>

definition le_zero :: "js_value \<Rightarrow> bool" where
  "le_zero v = (case to_number v of None \<Rightarrow> False | Some n \<Rightarrow> n \<le> 0)"

text \<open>
  \<^verbatim>\<open>a + v\<close> for a number \<open>a\<close>: the sum of two numbers, and with a string the
  concatenation of the numeral of \<open>a\<close> and the string. (The numeral of an integer is
  decimal below \<open>10 ^ 21\<close>.)
\<close>

definition plus_value :: "int \<Rightarrow> js_value \<Rightarrow> js_value" where
  "plus_value a v =
     (case v of JNum n \<Rightarrow> JNum (round_double (a + n)) | JStr s \<Rightarrow> JStr (show_int a @ s))"

text \<open>\<^verbatim>\<open>`${v}`\<close>.\<close>

definition value_text :: "js_value \<Rightarrow> string" where
  "value_text v = (case v of JNum n \<Rightarrow> show_int n | JStr s \<Rightarrow> s)"

subsection \<open>Replies\<close>

record shortage =
  available :: int
  requested :: int

text \<open>
  An error reply \<^verbatim>\<open>res.status(c).json({success: false, error: m, data?})\<close>: the HTTP
  status, the message and, for a stock shortage, the payload.
\<close>

datatype failure = Failure nat string "shortage option"

subsection \<open>Product (models/Product.js)\<close>

record product =
  p_id :: object_id
  p_name :: string
  p_sku :: string
  p_category :: string
  p_stock :: int
  p_price :: int
  p_description :: "string option"
  p_status :: string
  p_lowStockThreshold :: int
  p_addedBy :: "object_id option"
  p_createdAt :: nat
  p_updatedAt :: nat

text \<open>
  The schema's validators, in the order of the schema: each failing path with its message.
  \<^verbatim>\<open>required\<close> on a string rejects the empty string; \<^verbatim>\<open>min: 0\<close> rejects a negative
  number; \<^verbatim>\<open>enum\<close> rejects any other status.
\<close>

definition product_errors :: "product \<Rightarrow> (string \<times> string) list" where
  "product_errors p =
     (if p_name p = [] then [(''name'', ''Product name is required'')] else []) @
     (if p_sku p = [] then [(''sku'', ''SKU is required'')] else []) @
     (if p_category p = [] then [(''category'', ''Category is required'')] else []) @
     (if p_stock p < 0 then [(''stock'', ''Stock cannot be negative'')] else []) @
     (if p_price p < 0 then [(''price'', ''Price cannot be negative'')] else []) @
     (if p_status p \<notin> set [''in-stock'', ''low-stock'', ''out-of-stock'']
      then [(''status'', ''`'' @ p_status p @ ''` is not a valid enum value for path `status`.'')]
      else [])"

definition validation_message :: "string \<Rightarrow> (string \<times> string) list \<Rightarrow> string" where
  "validation_message model errs =
     model @ '' validation failed: '' @ join '', '' (map (\<lambda>(path, msg). path @ '': '' @ msg) errs)"

text \<open>The hook \<^verbatim>\<open>productSchema.pre('save', ...)\<close>.\<close>

definition pre_save :: "product \<Rightarrow> product" where
  "pre_save this =
     (if p_stock this = 0 then this\<lparr>p_status := ''out-of-stock''\<rparr>
      else if p_stock this \<le> p_lowStockThreshold this then this\<lparr>p_status := ''low-stock''\<rparr>
      else this\<lparr>p_status := ''in-stock''\<rparr>)"

text \<open>
  What a save writes: validation first, then the hook, then the time stamp. \<open>Inl\<close> is the
  message of the ValidationError that \<^verbatim>\<open>save()\<close> rejects with.
\<close>

definition run_save :: "nat \<Rightarrow> product \<Rightarrow> string + product" where
  "run_save t p =
     (case product_errors p of
        [] \<Rightarrow> Inr ((pre_save p)\<lparr>p_updatedAt := t\<rparr>)
      | e # es \<Rightarrow> Inl (validation_message ''Product'' (e # es)))"

subsection \<open>Transaction (models/Transaction.js)\<close>

record transaction =
  t_id :: object_id
  t_product :: object_id
  t_type :: string
  t_quantity :: int
  t_reference :: string
  t_performedBy :: object_id
  t_previousStock :: int
  t_newStock :: int
  t_status :: string
  t_createdAt :: nat
  t_updatedAt :: nat

definition transaction_errors :: "transaction \<Rightarrow> (string \<times> string) list" where
  "transaction_errors t =
     (if t_product t = [] then [(''product'', ''Product is required'')] else []) @
     (if t_type t \<notin> set [''in'', ''out'']
      then [(''type'', ''`'' @ t_type t @ ''` is not a valid enum value for path `type`.'')]
      else []) @
     (if t_quantity t < 1 then [(''quantity'', ''Quantity must be at least 1'')] else []) @
     (if t_performedBy t = [] then [(''performedBy'', ''Path `performedBy` is required.'')] else []) @
     (if t_status t \<notin> set [''pending'', ''completed'', ''rejected'']
      then [(''status'', ''`'' @ t_status t @ ''` is not a valid enum value for path `status`.'')]
      else [])"

subsection \<open>Audit (models/Audit.js)\<close>

record discrepancy =
  d_type :: string
  d_message :: string
  d_severity :: string

text \<open>One entry of \<^verbatim>\<open>auditResults\<close>, as the handler builds it for its reply.\<close>

record audit_result =
  r_productId :: object_id
  r_name :: string
  r_sku :: string
  r_currentStock :: int
  r_status :: string
  r_discrepancies :: "discrepancy list"

text \<open>
  An element of a \<^verbatim>\<open>discrepancies\<close> array as it reaches the schema: a string, or an
  object \<^verbatim>\<open>{type, message, severity}\<close>.
\<close>

datatype finding = Text string | Object discrepancy

text \<open>One entry of \<^verbatim>\<open>discrepancyDetails\<close>, with the fields of the schema.\<close>

record detail =
  dd_productId :: object_id
  dd_productName :: "string option"
  dd_sku :: string
  dd_currentStock :: int
  dd_status :: string
  dd_discrepancies :: "finding list"

record audit =
  a_id :: object_id
  a_title :: string
  a_date :: nat
  a_status :: string
  a_discrepancies :: nat
  a_discrepancyDetails :: "detail list"
  a_notes :: string
  a_createdBy :: object_id
  a_createdAt :: nat
  a_updatedAt :: nat

text \<open>
  The schema declares
  \<^verbatim>\<open>discrepancies: [{ type: String, message: String, severity: String }]\<close>. Mongoose reads
  the key \<^verbatim>\<open>type\<close> of such a nested declaration as the type of the path, so the elements
  of \<^verbatim>\<open>discrepancies\<close> are Strings. A string is kept as it is; an object cannot be cast
  to a String, and the array of that entry is then invalid.
\<close>

definition castable :: "finding \<Rightarrow> bool" where
  "castable f = (case f of Text _ \<Rightarrow> True | Object _ \<Rightarrow> False)"

definition discrepancies_path :: "nat \<Rightarrow> string" where
  "discrepancies_path i = ''discrepancyDetails.'' @ show_nat i @ ''.discrepancies''"

definition cast_errors :: "env \<Rightarrow> detail list \<Rightarrow> (string \<times> string) list" where
  "cast_errors e ds =
     concat (map (\<lambda>(i, dd). if list_all castable (dd_discrepancies dd) then []
                             else [(discrepancies_path i, cast_failed e (discrepancies_path i))])
                 (enumerate 0 ds))"

text \<open>The errors of a validation: the failed casts, then the validators of the schema.\<close>

definition audit_errors :: "env \<Rightarrow> audit \<Rightarrow> (string \<times> string) list" where
  "audit_errors e a =
     cast_errors e (a_discrepancyDetails a) @
     (if a_title a = [] then [(''title'', ''Audit title is required'')] else []) @
     (if a_status a \<notin> set [''scheduled'', ''in-progress'', ''completed'']
      then [(''status'', ''`'' @ a_status a @ ''` is not a valid enum value for path `status`.'')]
      else []) @
     (if a_createdBy a = [] then [(''createdBy'', ''Path `createdBy` is required.'')] else [])"

subsection \<open>User and Notification\<close>

text \<open>
  Modelled from the spec: the User schema (models/User.js) is not among the sources. The
  handlers read a user's \<^verbatim>\<open>_id\<close> and select users by \<^verbatim>\<open>role\<close>; the spec names the
  roles admin, manager, clerk and auditor.
\<close>

record user =
  u_id :: object_id
  u_fullName :: string
  u_email :: string
  u_role :: string

datatype meta = MStr string | MNum int

text \<open>
  Modelled from the spec: the Notification schema (models/Notification.js) is not among the
  sources. The fields are those of the spec's data model (recipient, optional sender,
  message, type, optional relatedProduct, metadata bag, isRead) and of the
  \<^verbatim>\<open>Notification.create\<close> call in the notification service; a notification is created
  unread, and creating one always succeeds.
\<close>

record notification =
  n_id :: object_id
  n_recipient :: object_id
  n_sender :: "object_id option"
  n_message :: string
  n_type :: string
  n_relatedProduct :: "object_id option"
  n_metadata :: "(string \<times> meta) list"
  n_isRead :: bool
  n_createdAt :: nat

subsection \<open>The database\<close>

record db =
  products :: "product list"
  transactions :: "transaction list"
  audits :: "audit list"
  users :: "user list"
  notifications :: "notification list"

text \<open>An update of one document: the first that matches, as \<^verbatim>\<open>updateOne\<close> does.\<close>

fun update_first :: "('a \<Rightarrow> bool) \<Rightarrow> ('a \<Rightarrow> 'a) \<Rightarrow> 'a list \<Rightarrow> 'a list" where
  "update_first P f [] = []"
| "update_first P f (x # xs) = (if P x then f x # xs else x # update_first P f xs)"

text \<open>\<^verbatim>\<open>product.save()\<close> on a document that was loaded from the collection.\<close>

definition save_product :: "nat \<Rightarrow> product \<Rightarrow> db \<Rightarrow> string + db" where
  "save_product t p d =
     (case run_save t p of
        Inl msg \<Rightarrow> Inl msg
      | Inr p' \<Rightarrow> Inr (d\<lparr>products := update_first (\<lambda>x. p_id x = p_id p) (\<lambda>_. p') (products d)\<rparr>))"

text \<open>\<^verbatim>\<open>Product.create\<close> once the document is built: the same save, of a new document.\<close>

definition insert_product :: "nat \<Rightarrow> product \<Rightarrow> db \<Rightarrow> string + db" where
  "insert_product t p d =
     (case run_save t (p\<lparr>p_createdAt := t\<rparr>) of
        Inl msg \<Rightarrow> Inl msg
      | Inr p' \<Rightarrow> Inr (d\<lparr>products := products d @ [p']\<rparr>))"

text \<open>\<^verbatim>\<open>Transaction.create\<close>: the new document, with the \<open>k\<close>-th fresh id of the request.\<close>

definition Transaction_create ::
  "env \<Rightarrow> nat \<Rightarrow> transaction \<Rightarrow> db \<Rightarrow> string + (transaction \<times> db)" where
  "Transaction_create e k t d =
     (let t' = t\<lparr>t_id := fresh e k, t_reference := trim (t_reference t),
                 t_createdAt := now e, t_updatedAt := now e\<rparr>
      in case transaction_errors t' of
           [] \<Rightarrow> Inr (t', d\<lparr>transactions := transactions d @ [t']\<rparr>)
         | x # xs \<Rightarrow> Inl (validation_message ''Transaction'' (x # xs)))"

text \<open>\<^verbatim>\<open>Notification_Service.sendNotification\<close>.\<close>

definition sendNotification ::
  "env \<Rightarrow> nat \<Rightarrow> object_id \<Rightarrow> string \<Rightarrow> string \<Rightarrow> object_id option \<Rightarrow> object_id option \<Rightarrow>
     (string \<times> meta) list \<Rightarrow> db \<Rightarrow> notification \<times> db" where
  "sendNotification e k recipientId message type senderId productId metadata d =
     (let n = \<lparr>n_id = fresh e k, n_recipient = recipientId, n_sender = senderId,
                n_message = message, n_type = type, n_relatedProduct = productId,
                n_metadata = metadata, n_isRead = False, n_createdAt = now e\<rparr>
      in (n, d\<lparr>notifications := notifications d @ [n]\<rparr>))"

text \<open>
  \<^verbatim>\<open>Promise.all(us.map(u => notificationService.sendNotification(u._id, ...)))\<close>: one
  call for each user of the list; the calls are modelled in the order of the list.
\<close>

fun send_each ::
  "env \<Rightarrow> nat \<Rightarrow> string \<Rightarrow> string \<Rightarrow> object_id option \<Rightarrow> object_id option \<Rightarrow>
     (string \<times> meta) list \<Rightarrow> user list \<Rightarrow> db \<Rightarrow> notification list \<times> db" where
  "send_each e k message type senderId productId metadata [] d = ([], d)"
| "send_each e k message type senderId productId metadata (u # us) d =
     (let (n, d1) = sendNotification e k (u_id u) message type senderId productId metadata d;
          (ns, d2) = send_each e (Suc k) message type senderId productId metadata us d1
      in (n # ns, d2))"

section \<open>Stock ledger (controllers/manager.controller.js)\<close>

record stock_body =
  b_productId :: "object_id option"
  b_quantity :: "int option"
  b_reference :: "string option"

text \<open>The \<^verbatim>\<open>data\<close> of a successful stock movement.\<close>

record stock_reply =
  sr_id :: object_id
  sr_name :: string
  sr_sku :: string
  sr_previousStock :: int
  sr_newStock :: int
  sr_transaction :: object_id
  sr_reference :: string

definition findById_product :: "object_id \<Rightarrow> db \<Rightarrow> product option" where
  "findById_product i d = find (\<lambda>p. p_id p = i) (products d)"

text \<open>\<^verbatim>\<open>reference || `PREFIX-${Date.now()}`\<close>: a missing or empty reference gives the token.\<close>

definition reference_or :: "string option \<Rightarrow> string \<Rightarrow> env \<Rightarrow> string" where
  "reference_or reference prefix e =
     (case reference of
        None \<Rightarrow> prefix @ show_nat (now e)
      | Some r \<Rightarrow> if r = [] then prefix @ show_nat (now e) else r)"

text \<open>
  The body of \<^verbatim>\<open>stockIn\<close> and the \<^verbatim>\<open>data\<close> of its reply. The quantity is the value
  that the body carries, and \<^verbatim>\<open>newStock\<close> is what \<^verbatim>\<open>previousStock + quantity\<close> gives.
\<close>

record stockIn_body =
  in_productId :: "object_id option"
  in_quantity :: "js_value option"
  in_reference :: "string option"

record stockIn_reply =
  si_id :: object_id
  si_name :: string
  si_sku :: string
  si_previousStock :: int
  si_newStock :: js_value
  si_transaction :: object_id
  si_reference :: string

definition meta_of :: "js_value \<Rightarrow> meta" where
  "meta_of v = (case v of JNum n \<Rightarrow> MNum n | JStr s \<Rightarrow> MStr s)"

text \<open>
  \<^verbatim>\<open>product.stock = newStock\<close> and the fields of \<^verbatim>\<open>Transaction.create\<close> cast the value
  to the Number of the schema; a value that is not a number fails the validation of the
  save.
\<close>

definition stockIn ::
  "env \<Rightarrow> object_id \<Rightarrow> stockIn_body \<Rightarrow> db \<Rightarrow> (failure + stockIn_reply) \<times> db" where
  "stockIn e userId body d =
     (case (in_productId body, in_quantity body) of
        (Some productId, Some quantity) \<Rightarrow>
          if productId = [] \<or> falsy quantity \<or> le_zero quantity
          then (Inl (Failure 400 ''Product ID and positive quantity are required'' None), d)
          else
            (case findById_product productId d of
               None \<Rightarrow> (Inl (Failure 404 ''Product not found'' None), d)
             | Some product \<Rightarrow>
                 let previousStock = p_stock product;
                     newStock = plus_value previousStock quantity
                 in (case to_number newStock of
                       None \<Rightarrow>
                         (Inl (Failure 500
                                 (validation_message ''Product''
                                    ((''stock'', cast_failed e ''stock'') #
                                     filter (\<lambda>x. fst x \<noteq> ''stock'') (product_errors product)))
                                 None), d)
                     | Some stock \<Rightarrow>
                         (case save_product (now e) (product\<lparr>p_stock := stock\<rparr>) d of
                            Inl msg \<Rightarrow> (Inl (Failure 500 msg None), d)
                          | Inr d1 \<Rightarrow>
                              (case to_number quantity of
                                 None \<Rightarrow>
                                   (Inl (Failure 500
                                           (validation_message ''Transaction''
                                              [(''quantity'', cast_failed e ''quantity'')])
                                           None), d1)
                               | Some amount \<Rightarrow>
                                   (case Transaction_create e 0
                                           \<lparr>t_id = [], t_product = productId, t_type = ''in'',
                                            t_quantity = amount,
                                            t_reference =
                                              reference_or (in_reference body) ''STOCK-IN-'' e,
                                            t_performedBy = userId,
                                            t_previousStock = previousStock,
                                            t_newStock = stock, t_status = ''completed'',
                                            t_createdAt = 0, t_updatedAt = 0\<rparr> d1 of
                                      Inl msg \<Rightarrow> (Inl (Failure 500 msg None), d1)
                                    | Inr (transaction, d2) \<Rightarrow>
                                        let clerks = filter (\<lambda>u. u_role u = ''clerk'') (users d2);
                                            (sent, d3) =
                                              send_each e 1
                                                (p_name product @
                                                 '' restocked successfully. New stock: '' @
                                                 value_text newStock @ '' units ('' @
                                                 value_text quantity @ '' added). SKU: '' @
                                                 p_sku product)
                                                ''restock'' (Some userId) (Some productId)
                                                [(''productName'', MStr (p_name product)),
                                                 (''sku'', MStr (p_sku product)),
                                                 (''previousStock'', MNum previousStock),
                                                 (''newStock'', meta_of newStock),
                                                 (''quantityAdded'', meta_of quantity)]
                                                clerks d2
                                        in (Inr \<lparr>si_id = p_id product, si_name = p_name product,
                                                 si_sku = p_sku product,
                                                 si_previousStock = previousStock,
                                                 si_newStock = newStock,
                                                 si_transaction = t_id transaction,
                                                 si_reference = t_reference transaction\<rparr>,
                                            d3))))))
      | _ \<Rightarrow> (Inl (Failure 400 ''Product ID and positive quantity are required'' None), d))"

text \<open>
  \<^verbatim>\<open>stockOut\<close> compares with \<^verbatim>\<open><\<close> and subtracts with \<^verbatim>\<open>-\<close>, which read a
  numeric string as its number; its quantity is modelled by that number.
\<close>

definition stockOut :: "env \<Rightarrow> object_id \<Rightarrow> stock_body \<Rightarrow> db \<Rightarrow> (failure + stock_reply) \<times> db" where
  "stockOut e userId body d =
     (case (b_productId body, b_quantity body) of
        (Some productId, Some quantity) \<Rightarrow>
          if productId = [] \<or> quantity = 0 \<or> quantity \<le> 0
          then (Inl (Failure 400 ''Product ID and positive quantity are required'' None), d)
          else
            (case findById_product productId d of
               None \<Rightarrow> (Inl (Failure 404 ''Product not found'' None), d)
             | Some product \<Rightarrow>
                 let previousStock = p_stock product
                 in if previousStock < quantity
                    then (Inl (Failure 400
                                 (''Insufficient stock. Available: '' @ show_int previousStock @
                                  '', Requested: '' @ show_int quantity)
                                 (Some \<lparr>available = previousStock, requested = quantity\<rparr>)), d)
                    else
                      let newStock = previousStock - quantity
                      in (case save_product (now e) (product\<lparr>p_stock := newStock\<rparr>) d of
                           Inl msg \<Rightarrow> (Inl (Failure 500 msg None), d)
                         | Inr d1 \<Rightarrow>
                             (case Transaction_create e 0
                                     \<lparr>t_id = [], t_product = productId, t_type = ''out'',
                                      t_quantity = quantity,
                                      t_reference = reference_or (b_reference body) ''STOCK-OUT-'' e,
                                      t_performedBy = userId, t_previousStock = previousStock,
                                      t_newStock = newStock, t_status = ''completed'',
                                      t_createdAt = 0, t_updatedAt = 0\<rparr> d1 of
                                Inl msg \<Rightarrow> (Inl (Failure 500 msg None), d1)
                              | Inr (transaction, d2) \<Rightarrow>
                                  (Inr \<lparr>sr_id = p_id product, sr_name = p_name product,
                                        sr_sku = p_sku product, sr_previousStock = previousStock,
                                        sr_newStock = newStock, sr_transaction = t_id transaction,
                                        sr_reference = t_reference transaction\<rparr>, d2))))
      | _ \<Rightarrow> (Inl (Failure 400 ''Product ID and positive quantity are required'' None), d))"

subsection \<open>The low-stock report\<close>

record low_stock_row =
  ls_id :: object_id
  ls_name :: string
  ls_sku :: string
  ls_category :: string
  ls_stock :: int
  ls_lowStockThreshold :: int
  ls_status :: string
  ls_needsAttention :: bool

record low_stock_summary =
  totalLowStockItems :: nat
  criticalItems :: nat
  warningItems :: nat

record low_stock_report =
  lr_type :: string
  lr_generatedAt :: nat
  lr_summary :: low_stock_summary
  lr_products :: "low_stock_row list"

text \<open>
  \<^verbatim>\<open>const lowStockProducts = allProductsForReport.filter(p => p.stock <= p.lowStockThreshold)\<close>
  over \<^verbatim>\<open>Product.find({}).sort({ stock: 1 })\<close>; products of equal stock are kept in the
  order of the collection.
\<close>

definition lowStockProducts :: "db \<Rightarrow> product list" where
  "lowStockProducts d =
     filter (\<lambda>p. p_stock p \<le> p_lowStockThreshold p) (sort_key p_stock (products d))"

text \<open>The case \<^verbatim>\<open>'lowStock'\<close> of \<^verbatim>\<open>generateReport\<close>.\<close>

definition generateReport_lowStock :: "env \<Rightarrow> db \<Rightarrow> low_stock_report" where
  "generateReport_lowStock e d =
     \<lparr>lr_type = ''lowStock'',
      lr_generatedAt = now e,
      lr_summary =
        \<lparr>totalLowStockItems = length (lowStockProducts d),
         criticalItems = length (filter (\<lambda>p. p_stock p = 0) (lowStockProducts d)),
         warningItems =
           length (filter (\<lambda>p. p_stock p > 0 \<and> p_stock p \<le> p_lowStockThreshold p)
                     (lowStockProducts d))\<rparr>,
      lr_products =
        map (\<lambda>p. \<lparr>ls_id = p_id p, ls_name = p_name p, ls_sku = p_sku p,
                   ls_category = p_category p, ls_stock = p_stock p,
                   ls_lowStockThreshold = p_lowStockThreshold p, ls_status = p_status p,
                   ls_needsAttention = (p_stock p \<le> p_lowStockThreshold p)\<rparr>)
            (lowStockProducts d)\<rparr>"

section \<open>Audit engine (controllers/auditor.controller.js)\<close>

text \<open>The four checks that \<^verbatim>\<open>createNewAudit\<close> makes on one product, in their order.\<close>

definition productDiscrepancies :: "product \<Rightarrow> discrepancy list" where
  "productDiscrepancies product =
     (if p_stock product < 0
      then [\<lparr>d_type = ''negative_stock'',
             d_message = ''Negative stock: '' @ show_int (p_stock product),
             d_severity = ''high''\<rparr>]
      else []) @
     (if p_stock product = 0 \<and> p_status product \<noteq> ''out-of-stock''
      then [\<lparr>d_type = ''status_mismatch'',
             d_message = ''Stock is 0 but status is '' @ p_status product,
             d_severity = ''medium''\<rparr>]
      else []) @
     (if p_stock product > 0 \<and> p_stock product \<le> p_lowStockThreshold product \<and>
         p_status product \<noteq> ''low-stock'' \<and> p_status product \<noteq> ''out-of-stock''
      then [\<lparr>d_type = ''low_stock_mismatch'',
             d_message = ''Stock ('' @ show_int (p_stock product) @ '') is below threshold ('' @
                         show_int (p_lowStockThreshold product) @ '') but status is '' @
                         p_status product,
             d_severity = ''low''\<rparr>]
      else []) @
     (if p_price product = 0 \<or> p_price product \<le> 0
      then [\<lparr>d_type = ''invalid_price'',
             d_message = ''Invalid or missing price: '' @ show_int (p_price product),
             d_severity = ''medium''\<rparr>]
      else [])"

text \<open>
  One turn of \<^verbatim>\<open>allProducts.forEach\<close>: the state is the pair of the arrays
  \<^verbatim>\<open>discrepancies\<close> and \<^verbatim>\<open>auditResults\<close>.
\<close>

definition audit_step ::
  "product \<Rightarrow> discrepancy list \<times> audit_result list \<Rightarrow> discrepancy list \<times> audit_result list" where
  "audit_step product acc =
     (let pd = productDiscrepancies product
      in if length pd > 0
         then (fst acc @ pd,
               snd acc @ [\<lparr>r_productId = p_id product, r_name = p_name product,
                            r_sku = p_sku product, r_currentStock = p_stock product,
                            r_status = p_status product, r_discrepancies = pd\<rparr>])
         else acc)"

definition audit_loop :: "product list \<Rightarrow> discrepancy list \<times> audit_result list" where
  "audit_loop allProducts = fold audit_step allProducts ([], [])"

text \<open>The method \<^verbatim>\<open>Auditor.auditInventory\<close>, which writes the summary text.\<close>

definition inventory_lines :: "product \<Rightarrow> string list" where
  "inventory_lines product =
     (if p_stock product < 0
      then [''Product '' @ p_name product @ '' ('' @ p_sku product @ '') has negative stock: '' @
            show_int (p_stock product)]
      else []) @
     (if p_stock product = 0 \<and> p_status product \<noteq> ''out-of-stock''
      then [''Product '' @ p_name product @ '' ('' @ p_sku product @
            '') has 0 stock but status is '' @ p_status product]
      else []) @
     (if p_stock product > 0 \<and> p_stock product \<le> p_lowStockThreshold product \<and>
         p_status product \<noteq> ''low-stock''
      then [''Product '' @ p_name product @ '' ('' @ p_sku product @
            '') is below threshold but status is '' @ p_status product]
      else []) @
     (if p_price product = 0 \<or> p_price product \<le> 0
      then [''Product '' @ p_name product @ '' ('' @ p_sku product @ '') has invalid price: '' @
            show_int (p_price product)]
      else [])"

definition auditInventory :: "product list \<Rightarrow> string" where
  "auditInventory ps =
     (let discrepancies = fold (\<lambda>product acc. acc @ inventory_lines product) ps []
      in if length discrepancies > 0
         then ''Audit completed. Found '' @ show_nat (length discrepancies) @
              '' discrepancy(ies):'' @ [CHR 0x0A] @ join [CHR 0x0A] discrepancies
         else ''Audit completed. No discrepancies found.'')"

text \<open>\<^verbatim>\<open>Audit.create\<close>, and \<^verbatim>\<open>audit.save()\<close> on a loaded record.\<close>

definition Audit_create :: "env \<Rightarrow> nat \<Rightarrow> audit \<Rightarrow> db \<Rightarrow> string + (audit \<times> db)" where
  "Audit_create e k a d =
     (let a' = a\<lparr>a_id := fresh e k, a_title := trim (a_title a), a_notes := trim (a_notes a),
                 a_createdAt := now e, a_updatedAt := now e\<rparr>
      in case audit_errors e a' of
           [] \<Rightarrow> Inr (a', d\<lparr>audits := audits d @ [a']\<rparr>)
         | x # xs \<Rightarrow> Inl (validation_message ''Audit'' (x # xs)))"

definition save_audit :: "env \<Rightarrow> audit \<Rightarrow> db \<Rightarrow> string + (audit \<times> db)" where
  "save_audit e a d =
     (case audit_errors e a of
        [] \<Rightarrow> Inr (a\<lparr>a_updatedAt := now e\<rparr>,
                   d\<lparr>audits := update_first (\<lambda>x. a_id x = a_id a)
                                  (\<lambda>_. a\<lparr>a_updatedAt := now e\<rparr>) (audits d)\<rparr>)
      | x # xs \<Rightarrow> Inl (validation_message ''Audit'' (x # xs)))"

record audit_reply =
  ar_auditId :: object_id
  ar_totalDiscrepancies :: nat
  ar_high :: nat
  ar_medium :: nat
  ar_low :: nat
  ar_auditResults :: "audit_result list"
  ar_summary :: string

text \<open>
  What \<^verbatim>\<open>Audit.create\<close> is handed for \<^verbatim>\<open>discrepancyDetails\<close>: the entries of
  \<^verbatim>\<open>auditResults\<close>. The schema has no path \<^verbatim>\<open>name\<close>, so that field is dropped and
  \<^verbatim>\<open>productName\<close> stays unset; the discrepancies are the handler's objects.
\<close>

definition as_detail :: "audit_result \<Rightarrow> detail" where
  "as_detail r =
     \<lparr>dd_productId = r_productId r, dd_productName = None, dd_sku = r_sku r,
      dd_currentStock = r_currentStock r, dd_status = r_status r,
      dd_discrepancies = map Object (r_discrepancies r)\<rparr>"

definition createNewAudit :: "env \<Rightarrow> object_id \<Rightarrow> db \<Rightarrow> (failure + audit_reply) \<times> db" where
  "createNewAudit e userId d =
     (let allProducts = products d;
          discrepancies = fst (audit_loop allProducts);
          auditResults = snd (audit_loop allProducts);
          currentDate = now e
      in case Audit_create e 0
                \<lparr>a_id = [], a_title = ''Inventory Audit - '' @ locale_date e currentDate,
                 a_date = currentDate, a_status = ''in-progress'',
                 a_discrepancies = length discrepancies,
                 a_discrepancyDetails = map as_detail auditResults,
                 a_notes = ''Audit started by auditor'', a_createdBy = userId,
                 a_createdAt = 0, a_updatedAt = 0\<rparr> d of
           Inl msg \<Rightarrow> (Inl (Failure 500 msg None), d)
         | Inr (newAudit, d1) \<Rightarrow>
             (Inr \<lparr>ar_auditId = a_id newAudit,
                   ar_totalDiscrepancies = length discrepancies,
                   ar_high = length (filter (\<lambda>x. d_severity x = ''high'') discrepancies),
                   ar_medium = length (filter (\<lambda>x. d_severity x = ''medium'') discrepancies),
                   ar_low = length (filter (\<lambda>x. d_severity x = ''low'') discrepancies),
                   ar_auditResults = auditResults,
                   ar_summary = auditInventory allProducts\<rparr>, d1))"

definition completeAudit :: "env \<Rightarrow> object_id \<Rightarrow> db \<Rightarrow> (failure + audit) \<times> db" where
  "completeAudit e i d =
     (case find (\<lambda>a. a_id a = i) (audits d) of
        None \<Rightarrow> (Inl (Failure 404 ''Audit not found'' None), d)
      | Some audit \<Rightarrow>
          if a_status audit = ''completed''
          then (Inl (Failure 400 ''Audit is already completed'' None), d)
          else (case save_audit e (audit\<lparr>a_status := ''completed''\<rparr>) d of
                  Inl msg \<Rightarrow> (Inl (Failure 500 msg None), d)
                | Inr (saved, d1) \<Rightarrow> (Inr saved, d1)))"

text \<open>
  The findings that a list of audit results holds for one product: the discrepancies of the
  entries with that \<^verbatim>\<open>productId\<close>.
\<close>

definition findings_for :: "object_id \<Rightarrow> audit_result list \<Rightarrow> discrepancy list" where
  "findings_for i rs = concat (map r_discrepancies (filter (\<lambda>r. r_productId r = i) rs))"

section \<open>Clerk (controllers/clerk.controller.js)\<close>

definition to_upper :: "char \<Rightarrow> char" where
  "to_upper c =
     (if (97::nat) \<le> of_char c \<and> of_char c \<le> (122::nat) then char_of (of_char c - (32::nat)) else c)"

text \<open>\<^verbatim>\<open>`ORD-${String(id).slice(-6).toUpperCase()}`\<close>.\<close>

definition orderNo :: "object_id \<Rightarrow> string" where
  "orderNo i = ''ORD-'' @ map to_upper (drop (length i - 6) i)"

record order_reply =
  or_id :: object_id
  or_orderNo :: string
  or_productName :: string
  or_sku :: string
  or_previousStatus :: string
  or_status :: string
  or_updatedAt :: nat

text \<open>
  \<^verbatim>\<open>Transaction.findByIdAndUpdate(id, { status }, { new: true, runValidators: true })\<close>:
  the update sets the status and the time stamp of the one document and returns it.
\<close>

definition Transaction_findByIdAndUpdate_status ::
  "nat \<Rightarrow> object_id \<Rightarrow> string \<Rightarrow> db \<Rightarrow> transaction option \<times> db" where
  "Transaction_findByIdAndUpdate_status t i status d =
     (case find (\<lambda>x. t_id x = i) (transactions d) of
        None \<Rightarrow> (None, d)
      | Some old \<Rightarrow>
          (Some (old\<lparr>t_status := status, t_updatedAt := t\<rparr>),
           d\<lparr>transactions :=
                update_first (\<lambda>x. t_id x = i) (\<lambda>x. x\<lparr>t_status := status, t_updatedAt := t\<rparr>)
                  (transactions d)\<rparr>))"

text \<open>
  The body's \<^verbatim>\<open>status\<close> may be missing. After the update the handler reads
  \<^verbatim>\<open>transaction.product.name\<close> of the populated product, which throws when the product
  is gone; the update is written by then.
\<close>

definition updateOrderStatus ::
  "env \<Rightarrow> object_id \<Rightarrow> string option \<Rightarrow> db \<Rightarrow> (failure + order_reply) \<times> db" where
  "updateOrderStatus e i body_status d =
     (case body_status of
        None \<Rightarrow>
          (Inl (Failure 400 ''Invalid status. Must be: pending, completed, or rejected'' None), d)
      | Some status \<Rightarrow>
          if status \<notin> set [''pending'', ''completed'', ''rejected'']
          then (Inl (Failure 400 ''Invalid status. Must be: pending, completed, or rejected'' None), d)
          else
            (case Transaction_findByIdAndUpdate_status (now e) i status d of
               (None, d1) \<Rightarrow> (Inl (Failure 404 ''Order not found'' None), d1)
             | (Some transaction, d1) \<Rightarrow>
                 (case findById_product (t_product transaction) d1 of
                    None \<Rightarrow> (Inl (Failure 500 (type_error e) None), d1)
                  | Some product \<Rightarrow>
                      (Inr \<lparr>or_id = t_id transaction, or_orderNo = orderNo (t_id transaction),
                            or_productName = p_name product, or_sku = p_sku product,
                            or_previousStatus =
                              (if t_status transaction = status then ''unchanged'' else ''updated''),
                            or_status = t_status transaction,
                            or_updatedAt = t_updatedAt transaction\<rparr>, d1))))"

record reorder_reply =
  rr_id :: object_id
  rr_name :: string
  rr_sku :: string
  rr_stock :: int
  rr_reorderLevel :: int
  rr_notificationsSent :: nat

definition requestReorder ::
  "env \<Rightarrow> object_id option \<Rightarrow> object_id option \<Rightarrow> db \<Rightarrow> (failure + reorder_reply) \<times> db" where
  "requestReorder e clerkId body_productId d =
     (case body_productId of
        None \<Rightarrow> (Inl (Failure 400 ''Product ID is required'' None), d)
      | Some productId \<Rightarrow>
          if productId = [] then (Inl (Failure 400 ''Product ID is required'' None), d)
          else
            (case findById_product productId d of
               None \<Rightarrow> (Inl (Failure 404 ''Product not found'' None), d)
             | Some product \<Rightarrow>
                 let managers = filter (\<lambda>u. u_role u = ''manager'') (users d);
                     (sent, d1) =
                       send_each e 0
                         (''Reorder request for '' @ p_name product @ '' (current stock: '' @
                          show_int (p_stock product) @ '' units). SKU: '' @ p_sku product)
                         ''reorder'' clerkId (Some productId)
                         [(''productName'', MStr (p_name product)),
                          (''sku'', MStr (p_sku product)),
                          (''currentStock'', MNum (p_stock product)),
                          (''reorderLevel'', MNum (p_lowStockThreshold product)),
                          (''category'', MStr (p_category product))]
                         managers d
                 in (Inr \<lparr>rr_id = p_id product, rr_name = p_name product, rr_sku = p_sku product,
                          rr_stock = p_stock product,
                          rr_reorderLevel = p_lowStockThreshold product,
                          rr_notificationsSent = length sent\<rparr>, d1)))"

section \<open>Notifications (controllers/notification.controller.js)\<close>

text \<open>\<^verbatim>\<open>Notification_Service.markAsRead\<close>.\<close>

definition service_markAsRead :: "object_id \<Rightarrow> db \<Rightarrow> notification option \<times> db" where
  "service_markAsRead notificationId d =
     (case find (\<lambda>n. n_id n = notificationId) (notifications d) of
        None \<Rightarrow> (None, d)
      | Some old \<Rightarrow>
          (Some (old\<lparr>n_isRead := True\<rparr>),
           d\<lparr>notifications :=
                update_first (\<lambda>n. n_id n = notificationId) (\<lambda>n. n\<lparr>n_isRead := True\<rparr>)
                  (notifications d)\<rparr>))"

text \<open>
  The handler \<^verbatim>\<open>markAsRead\<close>; \<open>recipientId\<close> is the \<^verbatim>\<open>userId\<close> of the authenticated
  caller.
\<close>

definition markAsRead ::
  "object_id \<Rightarrow> object_id \<Rightarrow> db \<Rightarrow> (failure + notification option) \<times> db" where
  "markAsRead recipientId i d =
     (case find (\<lambda>n. n_id n = i) (notifications d) of
        None \<Rightarrow> (Inl (Failure 404 ''Notification not found'' None), d)
      | Some notification \<Rightarrow>
          if recipientId \<noteq> ''admin-hardcoded'' \<and> n_recipient notification \<noteq> recipientId
          then (Inl (Failure 403 ''You are not authorized to mark this notification as read'' None), d)
          else (let (updated, d1) = service_markAsRead i d in (Inr updated, d1)))"

section \<open>A small shop, for concrete runs\<close>

definition widget :: product where
  "widget = \<lparr>p_id = ''p1'', p_name = ''Widget'', p_sku = ''X1'', p_category = ''Tools'',
              p_stock = 5, p_price = 3, p_description = None, p_status = ''low-stock'',
              p_lowStockThreshold = 10, p_addedBy = None, p_createdAt = 1, p_updatedAt = 1\<rparr>"

definition gasket :: product where
  "gasket = \<lparr>p_id = ''p2'', p_name = ''Gasket'', p_sku = ''G7'', p_category = ''Parts'',
              p_stock = 0, p_price = 0, p_description = None, p_status = ''in-stock'',
              p_lowStockThreshold = 10, p_addedBy = None, p_createdAt = 2, p_updatedAt = 2\<rparr>"

definition washer :: product where
  "washer = \<lparr>p_id = ''p3'', p_name = ''Washer'', p_sku = ''W2'', p_category = ''Parts'',
              p_stock = 0, p_price = 4, p_description = None, p_status = ''in-stock'',
              p_lowStockThreshold = 10, p_addedBy = None, p_createdAt = 3, p_updatedAt = 3\<rparr>"

definition spring :: product where
  "spring = \<lparr>p_id = ''p4'', p_name = ''Spring'', p_sku = ''S9'', p_category = ''Parts'',
              p_stock = 4, p_price = 2, p_description = None, p_status = ''in-stock'',
              p_lowStockThreshold = 10, p_addedBy = None, p_createdAt = 4, p_updatedAt = 4\<rparr>"

definition staff :: "user list" where
  "staff = [\<lparr>u_id = ''u1'', u_fullName = ''Ada'', u_email = ''ada@shop'', u_role = ''manager''\<rparr>,
            \<lparr>u_id = ''u2'', u_fullName = ''Bo'', u_email = ''bo@shop'', u_role = ''clerk''\<rparr>,
            \<lparr>u_id = ''u3'', u_fullName = ''Cy'', u_email = ''cy@shop'', u_role = ''manager''\<rparr>,
            \<lparr>u_id = ''u4'', u_fullName = ''Di'', u_email = ''di@shop'', u_role = ''auditor''\<rparr>,
            \<lparr>u_id = ''u5'', u_fullName = ''Ed'', u_email = ''ed@shop'', u_role = ''manager''\<rparr>]"

definition shop :: db where
  "shop = \<lparr>products = [widget], transactions = [], audits = [], users = staff,
            notifications = []\<rparr>"

definition clock :: env where
  "clock = \<lparr>now = 1000, fresh = (\<lambda>k. ''id'' @ show_nat k), locale_date = (\<lambda>t. ''1/1/2026''),
             type_error = ''Cannot read properties of null'',
             cast_failed = (\<lambda>path. ''Cast failed at path '' @ path)\<rparr>"

definition restock :: stock_body where
  "restock = \<lparr>b_productId = Some ''p1'', b_quantity = Some 20, b_reference = None\<rparr>"

definition order1 :: transaction where
  "order1 = \<lparr>t_id = ''64f0000000000000000a1b2c'', t_product = ''p1'', t_type = ''out'',
              t_quantity = 2, t_reference = ''REF-7'', t_performedBy = ''u1'',
              t_previousStock = 7, t_newStock = 5, t_status = ''pending'',
              t_createdAt = 10, t_updatedAt = 10\<rparr>"

definition planned :: audit where
  "planned = \<lparr>a_id = ''a1'', a_title = ''Spring count'', a_date = 5000, a_status = ''scheduled'',
               a_discrepancies = 0, a_discrepancyDetails = [],
               a_notes = ''Audit scheduled by auditor.'', a_createdBy = ''u4'',
               a_createdAt = 20, a_updatedAt = 20\<rparr>"

definition running :: audit where
  "running = \<lparr>a_id = ''a3'', a_title = ''Inventory Audit - 2/1/2026'', a_date = 60,
               a_status = ''in-progress'', a_discrepancies = 0, a_discrepancyDetails = [],
               a_notes = ''Audit started by auditor'', a_createdBy = ''u4'',
               a_createdAt = 60, a_updatedAt = 60\<rparr>"

definition closed :: audit where
  "closed = \<lparr>a_id = ''a2'', a_title = ''Inventory Audit - 1/1/2026'', a_date = 30,
              a_status = ''completed'', a_discrepancies = 0, a_discrepancyDetails = [],
              a_notes = ''Audit started by auditor'', a_createdBy = ''u4'',
              a_createdAt = 30, a_updatedAt = 40\<rparr>"

definition note1 :: notification where
  "note1 = \<lparr>n_id = ''n1'', n_recipient = ''u2'', n_sender = Some ''u1'',
             n_message = ''Widget restocked successfully.'', n_type = ''restock'',
             n_relatedProduct = Some ''p1'', n_metadata = [], n_isRead = False,
             n_createdAt = 50\<rparr>"

definition backroom :: db where
  "backroom = \<lparr>products = [widget, gasket, washer, spring], transactions = [order1],
                audits = [planned, closed, running], users = staff, notifications = [note1]\<rparr>"

definition washroom :: db where
  "washroom = \<lparr>products = [washer], transactions = [], audits = [], users = staff,
                notifications = []\<rparr>"

definition springroom :: db where
  "springroom = \<lparr>products = [spring], transactions = [], audits = [], users = staff,
                  notifications = []\<rparr>"

definition nut :: product where
  "nut = \<lparr>p_id = ''p6'', p_name = ''Nut'', p_sku = ''N3'', p_category = ''Parts'',
           p_stock = 40, p_price = 1, p_description = None, p_status = ''in-stock'',
           p_lowStockThreshold = 10, p_addedBy = None, p_createdAt = 6, p_updatedAt = 6\<rparr>"

definition tidy :: db where
  "tidy = \<lparr>products = [nut], transactions = [], audits = [], users = staff,
            notifications = []\<rparr>"

definition restock_text :: stockIn_body where
  "restock_text = \<lparr>in_productId = Some ''p1'', in_quantity = Some (JStr ''20''),
                    in_reference = None\<rparr>"

definition restock_number :: stockIn_body where
  "restock_number = \<lparr>in_productId = Some ''p1'', in_quantity = Some (JNum 20),
                      in_reference = None\<rparr>"

section \<open>Properties\<close>

subsection \<open>Updating one document, and the fan-out of notifications\<close>

lemma update_first_split:
  "find P xs = Some x \<Longrightarrow>
     \<exists>ys zs. xs = ys @ x # zs \<and> (\<forall>y\<in>set ys. \<not> P y) \<and> update_first P f xs = ys @ f x # zs"
proof (induction xs)
  case Nil
  then show ?case by simp
next
  case (Cons a xs)
  show ?case
  proof (cases "P a")
    case True
    with Cons.prems have "a = x" by simp
    with True have "a # xs = [] @ x # xs \<and> (\<forall>y\<in>set []. \<not> P y) \<and> update_first P f (a # xs) = [] @ f x # xs"
      by simp
    then show ?thesis by blast
  next
    case False
    with Cons.prems have "find P xs = Some x" by simp
    from Cons.IH[OF this] obtain ys zs where
      h: "xs = ys @ x # zs" "\<forall>y\<in>set ys. \<not> P y" "update_first P f xs = ys @ f x # zs"
      by blast
    with False have "a # xs = (a # ys) @ x # zs \<and> (\<forall>y\<in>set (a # ys). \<not> P y) \<and>
        update_first P f (a # xs) = (a # ys) @ f x # zs"
      by simp
    then show ?thesis by blast
  qed
qed

lemma find_update_first:
  "(\<And>x. P x \<Longrightarrow> P (f x)) \<Longrightarrow> find P (update_first P f xs) = map_option f (find P xs)"
  by (induction xs) auto

lemma update_first_none: "find P xs = None \<Longrightarrow> update_first P f xs = xs"
  by (induction xs) (auto split: if_splits)

lemma send_each_appends:
  "send_each e k m ty s pr md us d = (ns, d') \<Longrightarrow>
     d' = d\<lparr>notifications := notifications d @ ns\<rparr> \<and>
     map n_recipient ns = map u_id us \<and>
     (\<forall>n\<in>set ns. n_type n = ty \<and> n_sender n = s \<and> n_relatedProduct n = pr \<and> n_message n = m \<and>
        n_metadata n = md \<and> \<not> n_isRead n \<and> n_createdAt n = now e) \<and>
     map n_id ns = map (fresh e) [k..<k + length us]"
proof (induction us arbitrary: k d ns d')
  case Nil
  then show ?case by simp
next
  case (Cons u us)
  obtain n d1 where s1: "sendNotification e k (u_id u) m ty s pr md d = (n, d1)"
    by (cases "sendNotification e k (u_id u) m ty s pr md d")
  obtain ms d2 where s2: "send_each e (Suc k) m ty s pr md us d1 = (ms, d2)"
    by (cases "send_each e (Suc k) m ty s pr md us d1")
  from Cons.prems s1 s2 have r: "ns = n # ms" "d' = d2" by auto
  from s1 have n: "n = \<lparr>n_id = fresh e k, n_recipient = u_id u, n_sender = s, n_message = m,
       n_type = ty, n_relatedProduct = pr, n_metadata = md, n_isRead = False, n_createdAt = now e\<rparr>"
    and d1: "d1 = d\<lparr>notifications := notifications d @ [n]\<rparr>"
    by (auto simp: sendNotification_def Let_def)
  from Cons.IH[OF s2] have ih: "d2 = d1\<lparr>notifications := notifications d1 @ ms\<rparr>"
    "map n_recipient ms = map u_id us"
    "\<forall>n\<in>set ms. n_type n = ty \<and> n_sender n = s \<and> n_relatedProduct n = pr \<and> n_message n = m \<and>
        n_metadata n = md \<and> \<not> n_isRead n \<and> n_createdAt n = now e"
    "map n_id ms = map (fresh e) [Suc k..<Suc k + length us]"
    by auto
  have "[k..<k + length (u # us)] = k # [Suc k..<Suc k + length us]"
    by (simp add: upt_rec)
  with r n d1 ih show ?case by simp
qed

subsection \<open>Status derivation on save\<close>

lemma run_save_status:
  "run_save t p = Inr p' \<Longrightarrow>
     p_stock p' = p_stock p \<and> p_lowStockThreshold p' = p_lowStockThreshold p \<and> p_id p' = p_id p \<and>
     p_status p' = (if p_stock p = 0 then ''out-of-stock''
                    else if p_stock p \<le> p_lowStockThreshold p then ''low-stock'' else ''in-stock'')"
  by (auto simp: run_save_def pre_save_def split: list.splits if_splits)

lemma save_product_find:
  assumes "save_product t p d = Inr d'" and "findById_product (p_id p) d \<noteq> None"
  shows "\<exists>p'. run_save t p = Inr p' \<and> findById_product (p_id p) d' = Some p' \<and>
              d' = d\<lparr>products := update_first (\<lambda>x. p_id x = p_id p) (\<lambda>_. p') (products d)\<rparr>"
proof -
  from assms(1) obtain p' where rs: "run_save t p = Inr p'"
    and d': "d' = d\<lparr>products := update_first (\<lambda>x. p_id x = p_id p) (\<lambda>_. p') (products d)\<rparr>"
    by (auto simp: save_product_def split: sum.splits)
  from assms(2) obtain old where old: "find (\<lambda>x. p_id x = p_id p) (products d) = Some old"
    by (auto simp: findById_product_def)
  have "p_id p' = p_id p" using run_save_status[OF rs] by simp
  then have "find (\<lambda>x. p_id x = p_id p) (update_first (\<lambda>x. p_id x = p_id p) (\<lambda>_. p') (products d))
          = map_option (\<lambda>_. p') (find (\<lambda>x. p_id x = p_id p) (products d))"
    by (intro find_update_first) simp
  with old d' have "findById_product (p_id p) d' = Some p'"
    by (simp add: findById_product_def)
  with rs d' show ?thesis by blast
qed

text \<open>
  C1. Whatever the status of the document handed to a save, the document that a successful
  save persists carries the status derived from its stock and its threshold:
  out-of-stock when the stock is 0, else low-stock when the stock is at most the threshold,
  else in-stock. This holds for \<^verbatim>\<open>save()\<close> on a stored product and for the save of a new
  product; the stock and the threshold are persisted as given.
\<close>

theorem status_derived_on_save:
  "(save_product t p d = Inr d' \<and> findById_product (p_id p) d \<noteq> None \<longrightarrow>
      (\<exists>p'. findById_product (p_id p) d' = Some p' \<and>
            p_stock p' = p_stock p \<and> p_lowStockThreshold p' = p_lowStockThreshold p \<and>
            p_status p' = (if p_stock p' = 0 then ''out-of-stock''
                           else if p_stock p' \<le> p_lowStockThreshold p' then ''low-stock''
                           else ''in-stock''))) \<and>
   (insert_product t p d = Inr d' \<longrightarrow>
      products d' \<noteq> [] \<and> butlast (products d') = products d \<and>
      p_stock (last (products d')) = p_stock p \<and>
      p_lowStockThreshold (last (products d')) = p_lowStockThreshold p \<and>
      p_status (last (products d')) =
        (if p_stock (last (products d')) = 0 then ''out-of-stock''
         else if p_stock (last (products d')) \<le> p_lowStockThreshold (last (products d'))
         then ''low-stock'' else ''in-stock''))"
proof (rule conjI; rule impI)
  assume a: "save_product t p d = Inr d' \<and> findById_product (p_id p) d \<noteq> None"
  then obtain p' where rs: "run_save t p = Inr p'"
    and f: "findById_product (p_id p) d' = Some p'"
    using save_product_find by blast
  from run_save_status[OF rs] f
  show "\<exists>p'. findById_product (p_id p) d' = Some p' \<and>
            p_stock p' = p_stock p \<and> p_lowStockThreshold p' = p_lowStockThreshold p \<and>
            p_status p' = (if p_stock p' = 0 then ''out-of-stock''
                           else if p_stock p' \<le> p_lowStockThreshold p' then ''low-stock''
                           else ''in-stock'')"
    by simp
next
  assume a: "insert_product t p d = Inr d'"
  then obtain p' where rs: "run_save t (p\<lparr>p_createdAt := t\<rparr>) = Inr p'"
    and d': "d' = d\<lparr>products := products d @ [p']\<rparr>"
    by (auto simp: insert_product_def split: sum.splits)
  note st = run_save_status[OF rs]
  show "products d' \<noteq> [] \<and> butlast (products d') = products d \<and>
      p_stock (last (products d')) = p_stock p \<and>
      p_lowStockThreshold (last (products d')) = p_lowStockThreshold p \<and>
      p_status (last (products d')) =
        (if p_stock (last (products d')) = 0 then ''out-of-stock''
         else if p_stock (last (products d')) \<le> p_lowStockThreshold (last (products d'))
         then ''low-stock'' else ''in-stock'')"
    using st d' by simp
qed

text \<open>
  A save of the widget with stock 25 and a supplied status out-of-stock persists in-stock;
  a new washer with stock 0 and a supplied status low-stock is persisted out-of-stock.
\<close>

theorem status_derived_on_save_witness:
  "(save_product 1000 (widget\<lparr>p_stock := 25, p_status := ''out-of-stock''\<rparr>) shop
      = Inr (shop\<lparr>products := [widget\<lparr>p_stock := 25, p_status := ''in-stock'',
                                         p_updatedAt := 1000\<rparr>]\<rparr>) \<and>
    findById_product ''p1'' shop \<noteq> None \<and>
    (\<exists>p'. findById_product ''p1''
             (shop\<lparr>products := [widget\<lparr>p_stock := 25, p_status := ''in-stock'',
                                        p_updatedAt := 1000\<rparr>]\<rparr>) = Some p' \<and>
          p_stock p' = 25 \<and> p_lowStockThreshold p' = 10 \<and> p_status p' = ''in-stock'')) \<and>
   (insert_product 1000 (washer\<lparr>p_status := ''low-stock''\<rparr>) shop
      = Inr (shop\<lparr>products := [widget, washer\<lparr>p_status := ''out-of-stock'',
                                                 p_createdAt := 1000, p_updatedAt := 1000\<rparr>]\<rparr>) \<and>
    p_status (last (products
       (shop\<lparr>products := [widget, washer\<lparr>p_status := ''out-of-stock'',
                                           p_createdAt := 1000, p_updatedAt := 1000\<rparr>]\<rparr>)))
      = ''out-of-stock'')"
proof -
  let ?p = "widget\<lparr>p_stock := 25, p_status := ''out-of-stock''\<rparr>"
  let ?d = "shop\<lparr>products := [widget\<lparr>p_stock := 25, p_status := ''in-stock'',
                                       p_updatedAt := 1000\<rparr>]\<rparr>"
  let ?q = "washer\<lparr>p_status := ''low-stock''\<rparr>"
  let ?d2 = "shop\<lparr>products := [widget, washer\<lparr>p_status := ''out-of-stock'',
                                                p_createdAt := 1000, p_updatedAt := 1000\<rparr>]\<rparr>"
  have h1: "save_product 1000 ?p shop = Inr ?d" by code_simp
  have h2: "findById_product ''p1'' shop \<noteq> None" by code_simp
  have h3: "insert_product 1000 ?q shop = Inr ?d2" by code_simp
  have id: "p_id ?p = ''p1''" by (simp add: widget_def)
  have vals: "p_stock ?p = 25" "p_lowStockThreshold ?p = 10" "p_stock ?q = 0"
    by (simp_all add: widget_def washer_def)
  from status_derived_on_save[of 1000 ?p shop ?d] h1 h2 id
  obtain p' where p': "findById_product ''p1'' ?d = Some p'" "p_stock p' = p_stock ?p"
    "p_lowStockThreshold p' = p_lowStockThreshold ?p"
    "p_status p' = (if p_stock p' = 0 then ''out-of-stock''
                    else if p_stock p' \<le> p_lowStockThreshold p' then ''low-stock''
                    else ''in-stock'')"
    by auto
  from p' vals have c1: "\<exists>p'. findById_product ''p1'' ?d = Some p' \<and> p_stock p' = 25 \<and>
                 p_lowStockThreshold p' = 10 \<and> p_status p' = ''in-stock''"
    by simp
  from status_derived_on_save[of 1000 ?q shop ?d2] h3
  have "p_stock (last (products ?d2)) = p_stock ?q \<and>
        p_status (last (products ?d2)) =
          (if p_stock (last (products ?d2)) = 0 then ''out-of-stock''
           else if p_stock (last (products ?d2)) \<le> p_lowStockThreshold (last (products ?d2))
           then ''low-stock'' else ''in-stock'')"
    by blast
  with vals have c2: "p_status (last (products ?d2)) = ''out-of-stock''"
    by simp
  from h1 h2 h3 c1 c2 show ?thesis by blast
qed

subsection \<open>Stock ledger\<close>

lemma findById_product_id: "findById_product i d = Some p \<Longrightarrow> p_id p = i"
  by (auto simp: findById_product_def find_Some_iff)

lemma Transaction_create_appends:
  "Transaction_create e k t d = Inr (t', d') \<Longrightarrow>
     t' = t\<lparr>t_id := fresh e k, t_reference := trim (t_reference t),
             t_createdAt := now e, t_updatedAt := now e\<rparr> \<and>
     d' = d\<lparr>transactions := transactions d @ [t']\<rparr>"
  by (auto simp: Transaction_create_def Let_def split: list.splits)

text \<open>An integer below \<open>2 ^ 53\<close> is a double; at \<open>2 ^ 53\<close> adding 1 changes nothing.\<close>

lemma bit_length_bound: "n < 2 ^ k \<Longrightarrow> bit_length n \<le> k"
proof (induction k arbitrary: n)
  case 0
  then have "n \<le> 0" by simp
  then show ?case by (subst bit_length.simps) simp
next
  case (Suc k)
  show ?case
  proof (cases "n \<le> 0")
    case True
    then show ?thesis by (subst bit_length.simps) simp
  next
    case False
    from Suc.prems have "n div 2 < 2 ^ k" by simp
    then have "bit_length (n div 2) \<le> k" by (rule Suc.IH)
    with False show ?thesis by (subst bit_length.simps) simp
  qed
qed

lemma round_double_exact: "\<bar>x\<bar> < 2 ^ 53 \<Longrightarrow> round_double x = x"
  using bit_length_bound[of "\<bar>x\<bar>" 53] by (simp add: round_double_def Let_def)

lemma round_double_tie: "round_double (9007199254740992 + 1) = 9007199254740992"
  by code_simp

text \<open>
  For a quantity that is a number, a successful \<^verbatim>\<open>stockIn\<close> leaves the product with the
  sum of the stock it read and the quantity, as JavaScript adds them, and appends one
  transaction of type in and status completed with that previousStock and newStock.
\<close>

lemma stockIn_number:
  assumes found: "findById_product productId d = Some p"
    and ok: "stockIn e userId
               \<lparr>in_productId = Some productId, in_quantity = Some (JNum q), in_reference = r\<rparr> d
               = (Inr reply, d')"
  shows "0 < q \<and>
         (\<exists>p'. findById_product productId d' = Some p' \<and>
               p_stock p' = round_double (p_stock p + q)) \<and>
         (\<exists>t. transactions d' = transactions d @ [t] \<and> t_type t = ''in'' \<and>
              t_status t = ''completed'' \<and> t_quantity t = q \<and>
              t_previousStock t = p_stock p \<and> t_newStock t = round_double (p_stock p + q)) \<and>
         si_previousStock reply = p_stock p \<and>
         si_newStock reply = JNum (round_double (p_stock p + q))"
proof -
  let ?n = "round_double (p_stock p + q)"
  let ?p = "p\<lparr>p_stock := ?n\<rparr>"
  let ?t = "\<lparr>t_id = [], t_product = productId, t_type = ''in'', t_quantity = q,
             t_reference = reference_or r ''STOCK-IN-'' e, t_performedBy = userId,
             t_previousStock = p_stock p, t_newStock = ?n, t_status = ''completed'',
             t_createdAt = 0, t_updatedAt = 0\<rparr>"
  have pid: "p_id p = productId" using found by (rule findById_product_id)
  have nums: "plus_value (p_stock p) (JNum q) = JNum ?n" "to_number (JNum ?n) = Some ?n"
    "to_number (JNum q) = Some q"
    by (simp_all add: plus_value_def to_number_def)
  from ok have pos: "0 < q"
    by (auto simp: stockIn_def falsy_def le_zero_def to_number_def split: if_splits)
  from ok found nums obtain d1 where s1: "save_product (now e) ?p d = Inr d1"
    by (auto simp: stockIn_def Let_def split: if_splits sum.splits)
  from ok found nums s1 obtain tr d2 where s2: "Transaction_create e 0 ?t d1 = Inr (tr, d2)"
    by (auto simp: stockIn_def Let_def split: if_splits sum.splits)
  obtain sent d3 where s3:
    "send_each e 1
       (p_name p @ '' restocked successfully. New stock: '' @ value_text (JNum ?n) @
        '' units ('' @ value_text (JNum q) @ '' added). SKU: '' @ p_sku p)
       ''restock'' (Some userId) (Some productId)
       [(''productName'', MStr (p_name p)), (''sku'', MStr (p_sku p)),
        (''previousStock'', MNum (p_stock p)), (''newStock'', meta_of (JNum ?n)),
        (''quantityAdded'', meta_of (JNum q))]
       (filter (\<lambda>u. u_role u = ''clerk'') (users d2)) d2 = (sent, d3)"
    by (meson surj_pair)
  from ok found nums s1 s2 s3 have res: "d' = d3" "si_previousStock reply = p_stock p"
    "si_newStock reply = JNum ?n"
    by (auto simp: stockIn_def Let_def split: if_splits)
  from found have "findById_product (p_id ?p) d \<noteq> None" using pid by simp
  from save_product_find[OF s1 this] obtain p' where
    rs: "run_save (now e) ?p = Inr p'" and f1: "findById_product productId d1 = Some p'"
    and d1: "d1 = d\<lparr>products := update_first (\<lambda>x. p_id x = p_id ?p) (\<lambda>_. p') (products d)\<rparr>"
    using pid by auto
  note st = run_save_status[OF rs]
  note tc = Transaction_create_appends[OF s2]
  from send_each_appends[OF s3] have d3: "d3 = d2\<lparr>notifications := notifications d2 @ sent\<rparr>"
    by simp
  have "findById_product productId d' = Some p'"
    using f1 tc d3 res(1) by (simp add: findById_product_def)
  moreover have "p_stock p' = ?n" using st by simp
  moreover have "transactions d' = transactions d @ [tr]"
    using tc d3 res(1) d1 by simp
  moreover have "t_type tr = ''in'' \<and> t_status tr = ''completed'' \<and> t_quantity tr = q \<and>
      t_previousStock tr = p_stock p \<and> t_newStock tr = ?n"
    using tc by simp
  ultimately show ?thesis using res(2,3) pos by blast
qed

lemma stockIn_number_example:
  "fst (stockIn clock ''u1'' restock_number shop) =
     Inr \<lparr>si_id = ''p1'', si_name = ''Widget'', si_sku = ''X1'', si_previousStock = 5,
          si_newStock = JNum 25, si_transaction = ''id0'', si_reference = ''STOCK-IN-1000''\<rparr> \<and>
   findById_product ''p1'' (snd (stockIn clock ''u1'' restock_number shop)) =
     Some (widget\<lparr>p_stock := 25, p_status := ''in-stock'', p_updatedAt := 1000\<rparr>)"
  by code_simp

text \<open>
  C2 asks that a successful \<^verbatim>\<open>stockIn\<close> with a quantity \<open>q > 0\<close> leaves the stock at
  the previous stock plus \<open>q\<close>, with one transaction that records both. The handler does
  not do so for a quantity that arrives as a string. The widget has stock 5 and the body
  carries \<^verbatim>\<open>"20"\<close>: the guard lets it pass (\<^verbatim>\<open>"20" <= 0\<close> is false),
  \<^verbatim>\<open>previousStock + quantity\<close> is the text \<^verbatim>\<open>"520"\<close>, and the save and
  \<^verbatim>\<open>Transaction.create\<close> cast that text to the number 520. The reply is a success, the
  stock is 520, and the one transaction has quantity 20, previousStock 5 and newStock 520.
\<close>

theorem stockIn_concatenates_text_quantity:
  "findById_product ''p1'' shop = Some widget \<and> p_stock widget = 5 \<and>
   in_quantity restock_text = Some (JStr ''20'') \<and>
   fst (stockIn clock ''u1'' restock_text shop) =
     Inr \<lparr>si_id = ''p1'', si_name = ''Widget'', si_sku = ''X1'', si_previousStock = 5,
          si_newStock = JStr ''520'', si_transaction = ''id0'',
          si_reference = ''STOCK-IN-1000''\<rparr> \<and>
   findById_product ''p1'' (snd (stockIn clock ''u1'' restock_text shop)) =
     Some (widget\<lparr>p_stock := 520, p_status := ''in-stock'', p_updatedAt := 1000\<rparr>) \<and>
   transactions (snd (stockIn clock ''u1'' restock_text shop)) =
     [\<lparr>t_id = ''id0'', t_product = ''p1'', t_type = ''in'', t_quantity = 20,
       t_reference = ''STOCK-IN-1000'', t_performedBy = ''u1'', t_previousStock = 5,
       t_newStock = 520, t_status = ''completed'', t_createdAt = 1000, t_updatedAt = 1000\<rparr>]"
  by code_simp

text \<open>
  C3. For a stored product and a quantity \<open>q > 0\<close> above its stock, \<^verbatim>\<open>stockOut\<close> replies
  400 with the payload of the available and the requested amount, and the database is the
  one it was given: no stock or status changes and no transaction is appended.
\<close>

theorem stockOut_insufficient:
  assumes found: "findById_product productId d = Some p"
    and nonempty: "productId \<noteq> []"
    and pos: "0 < q"
    and short: "p_stock p < q"
  shows "stockOut e userId \<lparr>b_productId = Some productId, b_quantity = Some q, b_reference = r\<rparr> d
           = (Inl (Failure 400
                     (''Insufficient stock. Available: '' @ show_int (p_stock p) @
                      '', Requested: '' @ show_int q)
                     (Some \<lparr>available = p_stock p, requested = q\<rparr>)), d)"
  using assms by (simp add: stockOut_def Let_def)

theorem stockOut_insufficient_witness:
  "findById_product ''p1'' shop = Some widget \<and> ''p1'' \<noteq> [] \<and> (0::int) < 20 \<and>
   p_stock widget < 20 \<and>
   stockOut clock ''u1'' restock shop
     = (Inl (Failure 400 ''Insufficient stock. Available: 5, Requested: 20''
               (Some \<lparr>available = 5, requested = 20\<rparr>)), shop)"
proof -
  have h1: "findById_product ''p1'' shop = Some widget" by code_simp
  have h2: "''p1'' \<noteq> []" by simp
  have h3: "(0::int) < 20" by simp
  have h4: "p_stock widget < 20" by (simp add: widget_def)
  have m: "''Insufficient stock. Available: '' @ show_int (p_stock widget) @
           '', Requested: '' @ show_int 20 = ''Insufficient stock. Available: 5, Requested: 20''"
    by code_simp
  have a: "p_stock widget = 5" by (simp add: widget_def)
  from stockOut_insufficient[OF h1 h2 h3 h4, of clock "''u1''" None] m a
  have "stockOut clock ''u1'' restock shop
     = (Inl (Failure 400 ''Insufficient stock. Available: 5, Requested: 20''
               (Some \<lparr>available = 5, requested = 20\<rparr>)), shop)"
    by (simp add: restock_def)
  with h1 h2 h3 h4 show ?thesis by blast
qed

subsection \<open>Completing an audit\<close>

lemma find_id: "find P xs = Some x \<Longrightarrow> P x"
  by (auto simp: find_Some_iff)

text \<open>
  C4. For a stored audit record, \<^verbatim>\<open>completeAudit\<close> on a record whose status is completed
  fails (the conflict is replied as HTTP 400, ``Audit is already completed'') and returns
  the database as it was. On a record that satisfies its schema, the cast of its
  discrepancy details included, and whose status is scheduled or in-progress, it writes
  that one record with the status completed and the time stamp of the save; its
  discrepancy count and its discrepancy details are the ones it had, and every other record
  is untouched.
\<close>

theorem completeAudit_transition:
  assumes found: "find (\<lambda>a. a_id a = i) (audits d) = Some a"
  shows "(a_status a = ''completed'' \<longrightarrow>
            completeAudit e i d = (Inl (Failure 400 ''Audit is already completed'' None), d)) \<and>
         (a_status a \<in> {''scheduled'', ''in-progress''} \<and> audit_errors e a = [] \<longrightarrow>
            (\<exists>ys zs a'. audits d = ys @ a # zs \<and> (\<forall>y\<in>set ys. a_id y \<noteq> i) \<and>
               a' = a\<lparr>a_status := ''completed'', a_updatedAt := now e\<rparr> \<and>
               a_status a' = ''completed'' \<and>
               a_discrepancies a' = a_discrepancies a \<and>
               a_discrepancyDetails a' = a_discrepancyDetails a \<and>
               completeAudit e i d = (Inr a', d\<lparr>audits := ys @ a' # zs\<rparr>)))"
proof (rule conjI; rule impI)
  assume "a_status a = ''completed''"
  with found show "completeAudit e i d = (Inl (Failure 400 ''Audit is already completed'' None), d)"
    by (simp add: completeAudit_def)
next
  let ?a' = "a\<lparr>a_status := ''completed'', a_updatedAt := now e\<rparr>"
  assume h: "a_status a \<in> {''scheduled'', ''in-progress''} \<and> audit_errors e a = []"
  then have nc: "a_status a \<noteq> ''completed''" by auto
  from h have valid: "audit_errors e (a\<lparr>a_status := ''completed''\<rparr>) = []"
    by (auto simp: audit_errors_def split: if_splits)
  have aid: "a_id a = i" using find_id[OF found] .
  from update_first_split[OF found, of "\<lambda>_. ?a'"] obtain ys zs where
    sp: "audits d = ys @ a # zs" "\<forall>y\<in>set ys. a_id y \<noteq> i"
      "update_first (\<lambda>a. a_id a = i) (\<lambda>_. ?a') (audits d) = ys @ ?a' # zs"
    by blast
  have "completeAudit e i d = (Inr ?a', d\<lparr>audits := ys @ ?a' # zs\<rparr>)"
    using found nc valid aid sp(3) by (simp add: completeAudit_def save_audit_def)
  with sp(1,2) show "\<exists>ys zs a'. audits d = ys @ a # zs \<and> (\<forall>y\<in>set ys. a_id y \<noteq> i) \<and>
               a' = a\<lparr>a_status := ''completed'', a_updatedAt := now e\<rparr> \<and>
               a_status a' = ''completed'' \<and>
               a_discrepancies a' = a_discrepancies a \<and>
               a_discrepancyDetails a' = a_discrepancyDetails a \<and>
               completeAudit e i d = (Inr a', d\<lparr>audits := ys @ a' # zs\<rparr>)"
    by (intro exI[of _ ys] exI[of _ zs] exI[of _ ?a']) simp
qed

text \<open>The closed audit is refused; the planned and the running one are completed.\<close>

theorem completeAudit_transition_witness:
  "find (\<lambda>a. a_id a = ''a2'') (audits backroom) = Some closed \<and>
   a_status closed = ''completed'' \<and>
   completeAudit clock ''a2'' backroom
     = (Inl (Failure 400 ''Audit is already completed'' None), backroom) \<and>
   find (\<lambda>a. a_id a = ''a1'') (audits backroom) = Some planned \<and>
   a_status planned \<in> {''scheduled'', ''in-progress''} \<and> audit_errors clock planned = [] \<and>
   (\<exists>d'. completeAudit clock ''a1'' backroom
            = (Inr (planned\<lparr>a_status := ''completed'', a_updatedAt := 1000\<rparr>), d')) \<and>
   find (\<lambda>a. a_id a = ''a3'') (audits backroom) = Some running \<and>
   a_status running \<in> {''scheduled'', ''in-progress''} \<and> audit_errors clock running = [] \<and>
   (\<exists>d'. completeAudit clock ''a3'' backroom
            = (Inr (running\<lparr>a_status := ''completed'', a_updatedAt := 1000\<rparr>), d'))"
proof -
  have f2: "find (\<lambda>a. a_id a = ''a2'') (audits backroom) = Some closed" by code_simp
  have s2: "a_status closed = ''completed''" by code_simp
  have f1: "find (\<lambda>a. a_id a = ''a1'') (audits backroom) = Some planned" by code_simp
  have s1: "a_status planned \<in> {''scheduled'', ''in-progress''}" by (simp add: planned_def)
  have v1: "audit_errors clock planned = []" by code_simp
  have f3: "find (\<lambda>a. a_id a = ''a3'') (audits backroom) = Some running" by code_simp
  have s3: "a_status running \<in> {''scheduled'', ''in-progress''}" by (simp add: running_def)
  have v3: "audit_errors clock running = []" by code_simp
  have n: "now clock = 1000" by (simp add: clock_def)
  from completeAudit_transition[OF f2, of clock] s2
  have c2: "completeAudit clock ''a2'' backroom
     = (Inl (Failure 400 ''Audit is already completed'' None), backroom)"
    by blast
  from completeAudit_transition[OF f1, of clock] s1 v1 n
  have c1: "\<exists>d'. completeAudit clock ''a1'' backroom
            = (Inr (planned\<lparr>a_status := ''completed'', a_updatedAt := 1000\<rparr>), d')"
    by auto
  from completeAudit_transition[OF f3, of clock] s3 v3 n
  have c3: "\<exists>d'. completeAudit clock ''a3'' backroom
            = (Inr (running\<lparr>a_status := ''completed'', a_updatedAt := 1000\<rparr>), d')"
    by auto
  show ?thesis
    by (intro conjI)
       (rule f2, rule s2, rule c2, rule f1, rule s1, rule v1, rule c1, rule f3, rule s3,
        rule v3, rule c3)
qed

text \<open>
  A record whose details hold an object where the schema has a String does not pass the
  validation of the save: the reply is HTTP 500 and the record keeps its status.
\<close>

lemma cast_errors_uncastable:
  assumes "dd \<in> set ds" and "\<not> list_all castable (dd_discrepancies dd)"
  shows "cast_errors e ds \<noteq> []"
proof -
  from assms(1) obtain i where i: "i < length ds" "ds ! i = dd"
    by (auto simp: in_set_conv_nth)
  then have "(i, dd) \<in> set (enumerate 0 ds)"
    by (simp add: in_set_enumerate_eq)
  with assms(2) show ?thesis
    by (force simp: cast_errors_def)
qed

lemma cast_errors_castable:
  "cast_errors e ds = [] \<Longrightarrow> dd \<in> set ds \<Longrightarrow> list_all castable (dd_discrepancies dd)"
  using cast_errors_uncastable by blast

lemma completeAudit_uncastable:
  assumes found: "find (\<lambda>a. a_id a = i) (audits d) = Some a"
    and open_: "a_status a \<noteq> ''completed''"
    and dd: "dd \<in> set (a_discrepancyDetails a)" "\<not> list_all castable (dd_discrepancies dd)"
  shows "\<exists>msg. completeAudit e i d = (Inl (Failure 500 msg None), d)"
proof -
  have "cast_errors e (a_discrepancyDetails a) \<noteq> []"
    using dd by (rule cast_errors_uncastable)
  then have "audit_errors e (a\<lparr>a_status := ''completed''\<rparr>) \<noteq> []"
    by (simp add: audit_errors_def)
  then obtain x xs where "audit_errors e (a\<lparr>a_status := ''completed''\<rparr>) = x # xs"
    by (cases "audit_errors e (a\<lparr>a_status := ''completed''\<rparr>)") auto
  with found open_ show ?thesis
    by (simp add: completeAudit_def save_audit_def)
qed

subsection \<open>Order status\<close>

text \<open>
  C9. For a stored transaction and a target status among pending, completed and rejected,
  \<^verbatim>\<open>updateOrderStatus\<close> rewrites that one transaction with the new status (and the
  \<^verbatim>\<open>updatedAt\<close> stamp that the update sets): its product, type, quantity, reference,
  performedBy, previousStock and newStock are unchanged, and so are all other documents.
  Any other target status is refused with HTTP 400 and the database is unchanged.
\<close>

theorem updateOrderStatus_frame:
  assumes found: "find (\<lambda>x. t_id x = i) (transactions d) = Some t"
  shows "(status \<in> {''pending'', ''completed'', ''rejected''} \<longrightarrow>
            (\<exists>r ys zs t'. transactions d = ys @ t # zs \<and> (\<forall>y\<in>set ys. t_id y \<noteq> i) \<and>
               t' = t\<lparr>t_status := status, t_updatedAt := now e\<rparr> \<and>
               t_status t' = status \<and> t_id t' = t_id t \<and> t_product t' = t_product t \<and>
               t_type t' = t_type t \<and> t_quantity t' = t_quantity t \<and>
               t_reference t' = t_reference t \<and> t_performedBy t' = t_performedBy t \<and>
               t_previousStock t' = t_previousStock t \<and> t_newStock t' = t_newStock t \<and>
               updateOrderStatus e i (Some status) d = (r, d\<lparr>transactions := ys @ t' # zs\<rparr>))) \<and>
         (status \<notin> {''pending'', ''completed'', ''rejected''} \<longrightarrow>
            updateOrderStatus e i (Some status) d =
              (Inl (Failure 400 ''Invalid status. Must be: pending, completed, or rejected'' None), d))"
proof (rule conjI; rule impI)
  let ?t' = "t\<lparr>t_status := status, t_updatedAt := now e\<rparr>"
  assume ok: "status \<in> {''pending'', ''completed'', ''rejected''}"
  from update_first_split[OF found, of "\<lambda>x. x\<lparr>t_status := status, t_updatedAt := now e\<rparr>"]
  obtain ys zs where
    sp: "transactions d = ys @ t # zs" "\<forall>y\<in>set ys. t_id y \<noteq> i"
      "update_first (\<lambda>x. t_id x = i) (\<lambda>x. x\<lparr>t_status := status, t_updatedAt := now e\<rparr>)
         (transactions d) = ys @ ?t' # zs"
    by blast
  have upd: "Transaction_findByIdAndUpdate_status (now e) i status d
               = (Some ?t', d\<lparr>transactions := ys @ ?t' # zs\<rparr>)"
    using found sp(3) by (simp add: Transaction_findByIdAndUpdate_status_def)
  have "snd (updateOrderStatus e i (Some status) d) = d\<lparr>transactions := ys @ ?t' # zs\<rparr>"
    using ok upd by (auto simp: updateOrderStatus_def split: option.splits)
  then have "updateOrderStatus e i (Some status) d
      = (fst (updateOrderStatus e i (Some status) d), d\<lparr>transactions := ys @ ?t' # zs\<rparr>)"
    by (metis prod.collapse)
  with sp(1,2) show "\<exists>r ys zs t'. transactions d = ys @ t # zs \<and> (\<forall>y\<in>set ys. t_id y \<noteq> i) \<and>
               t' = t\<lparr>t_status := status, t_updatedAt := now e\<rparr> \<and>
               t_status t' = status \<and> t_id t' = t_id t \<and> t_product t' = t_product t \<and>
               t_type t' = t_type t \<and> t_quantity t' = t_quantity t \<and>
               t_reference t' = t_reference t \<and> t_performedBy t' = t_performedBy t \<and>
               t_previousStock t' = t_previousStock t \<and> t_newStock t' = t_newStock t \<and>
               updateOrderStatus e i (Some status) d = (r, d\<lparr>transactions := ys @ t' # zs\<rparr>)"
    by (intro exI[of _ "fst (updateOrderStatus e i (Some status) d)"] exI[of _ ys] exI[of _ zs]
          exI[of _ ?t']) simp
next
  assume "status \<notin> {''pending'', ''completed'', ''rejected''}"
  then show "updateOrderStatus e i (Some status) d =
              (Inl (Failure 400 ''Invalid status. Must be: pending, completed, or rejected'' None), d)"
    by (simp add: updateOrderStatus_def)
qed

theorem updateOrderStatus_frame_witness:
  "find (\<lambda>x. t_id x = ''64f0000000000000000a1b2c'') (transactions backroom) = Some order1 \<and>
   ''rejected'' \<in> {''pending'', ''completed'', ''rejected''} \<and>
   ''shipped'' \<notin> {''pending'', ''completed'', ''rejected''} \<and>
   (\<exists>r ys zs. transactions backroom = ys @ order1 # zs \<and>
      updateOrderStatus clock ''64f0000000000000000a1b2c'' (Some ''rejected'') backroom
        = (r, backroom\<lparr>transactions :=
                 ys @ order1\<lparr>t_status := ''rejected'', t_updatedAt := 1000\<rparr> # zs\<rparr>)) \<and>
   updateOrderStatus clock ''64f0000000000000000a1b2c'' (Some ''shipped'') backroom
     = (Inl (Failure 400 ''Invalid status. Must be: pending, completed, or rejected'' None),
        backroom)"
proof -
  let ?i = "''64f0000000000000000a1b2c''"
  have f: "find (\<lambda>x. t_id x = ?i) (transactions backroom) = Some order1" by code_simp
  have a: "''rejected'' \<in> {''pending'', ''completed'', ''rejected''}" by simp
  have b: "''shipped'' \<notin> {''pending'', ''completed'', ''rejected''}" by simp
  have n: "now clock = 1000" by (simp add: clock_def)
  from updateOrderStatus_frame[OF f, of "''rejected''" clock] a n
  have c1: "\<exists>r ys zs. transactions backroom = ys @ order1 # zs \<and>
      updateOrderStatus clock ?i (Some ''rejected'') backroom
        = (r, backroom\<lparr>transactions :=
                 ys @ order1\<lparr>t_status := ''rejected'', t_updatedAt := 1000\<rparr> # zs\<rparr>)"
    by auto
  from updateOrderStatus_frame[OF f, of "''shipped''" clock] b
  have c2: "updateOrderStatus clock ?i (Some ''shipped'') backroom
     = (Inl (Failure 400 ''Invalid status. Must be: pending, completed, or rejected'' None),
        backroom)"
    by blast
  from f a b c1 c2 show ?thesis by blast
qed

subsection \<open>Marking a notification as read\<close>

text \<open>
  C10. For a stored notification \<open>n\<close> and a caller \<open>c\<close> other than the admin sentinel,
  \<^verbatim>\<open>markAsRead\<close> succeeds exactly when \<open>c\<close> is the recipient of \<open>n\<close>; otherwise it replies
  HTTP 403 and leaves the database unchanged. For the recipient and for the admin sentinel
  it succeeds, and the only change is that \<open>n\<close> is now read.
\<close>

theorem markAsRead_authorization:
  assumes found: "find (\<lambda>n. n_id n = i) (notifications d) = Some n"
  shows "(c \<noteq> ''admin-hardcoded'' \<longrightarrow>
            ((\<exists>u d'. markAsRead c i d = (Inr u, d')) \<longleftrightarrow> n_recipient n = c)) \<and>
         (c \<noteq> ''admin-hardcoded'' \<and> n_recipient n \<noteq> c \<longrightarrow>
            markAsRead c i d =
              (Inl (Failure 403 ''You are not authorized to mark this notification as read'' None), d)) \<and>
         (c = ''admin-hardcoded'' \<or> n_recipient n = c \<longrightarrow>
            (\<exists>ys zs. notifications d = ys @ n # zs \<and> (\<forall>y\<in>set ys. n_id y \<noteq> i) \<and>
               markAsRead c i d =
                 (Inr (Some (n\<lparr>n_isRead := True\<rparr>)),
                  d\<lparr>notifications := ys @ n\<lparr>n_isRead := True\<rparr> # zs\<rparr>)))"
proof -
  from update_first_split[OF found, of "\<lambda>n. n\<lparr>n_isRead := True\<rparr>"]
  obtain ys zs where
    sp: "notifications d = ys @ n # zs" "\<forall>y\<in>set ys. n_id y \<noteq> i"
      "update_first (\<lambda>n. n_id n = i) (\<lambda>n. n\<lparr>n_isRead := True\<rparr>) (notifications d)
         = ys @ n\<lparr>n_isRead := True\<rparr> # zs"
    by blast
  have denied: "markAsRead c i d =
      (Inl (Failure 403 ''You are not authorized to mark this notification as read'' None), d)"
    if "c \<noteq> ''admin-hardcoded''" "n_recipient n \<noteq> c"
    using that found by (simp add: markAsRead_def)
  have granted: "markAsRead c i d =
      (Inr (Some (n\<lparr>n_isRead := True\<rparr>)), d\<lparr>notifications := ys @ n\<lparr>n_isRead := True\<rparr> # zs\<rparr>)"
    if "c = ''admin-hardcoded'' \<or> n_recipient n = c"
    using that found sp(3) by (auto simp: markAsRead_def service_markAsRead_def)
  have iff: "(\<exists>u d'. markAsRead c i d = (Inr u, d')) \<longleftrightarrow> n_recipient n = c"
    if "c \<noteq> ''admin-hardcoded''"
  proof
    assume ex: "\<exists>u d'. markAsRead c i d = (Inr u, d')"
    show "n_recipient n = c"
    proof (rule ccontr)
      assume "n_recipient n \<noteq> c"
      from denied[OF that this] ex show False by simp
    qed
  next
    assume "n_recipient n = c"
    with granted show "\<exists>u d'. markAsRead c i d = (Inr u, d')" by blast
  qed
  from denied granted iff sp(1,2) show ?thesis by blast
qed

theorem markAsRead_authorization_witness:
  "find (\<lambda>n. n_id n = ''n1'') (notifications backroom) = Some note1 \<and>
   ''u1'' \<noteq> ''admin-hardcoded'' \<and> n_recipient note1 \<noteq> ''u1'' \<and>
   markAsRead ''u1'' ''n1'' backroom
     = (Inl (Failure 403 ''You are not authorized to mark this notification as read'' None),
        backroom) \<and>
   n_recipient note1 = ''u2'' \<and>
   (\<exists>d'. markAsRead ''u2'' ''n1'' backroom = (Inr (Some (note1\<lparr>n_isRead := True\<rparr>)), d')) \<and>
   (\<exists>d'. markAsRead ''admin-hardcoded'' ''n1'' backroom
           = (Inr (Some (note1\<lparr>n_isRead := True\<rparr>)), d'))"
proof -
  have f: "find (\<lambda>n. n_id n = ''n1'') (notifications backroom) = Some note1" by code_simp
  have a: "''u1'' \<noteq> ''admin-hardcoded''" by simp
  have b: "n_recipient note1 \<noteq> ''u1''" by (simp add: note1_def)
  have r: "n_recipient note1 = ''u2''" by (simp add: note1_def)
  from markAsRead_authorization[OF f, of "''u1''"] a b
  have c1: "markAsRead ''u1'' ''n1'' backroom
     = (Inl (Failure 403 ''You are not authorized to mark this notification as read'' None),
        backroom)"
    by blast
  from markAsRead_authorization[OF f, of "''u2''"] r
  have c2: "\<exists>d'. markAsRead ''u2'' ''n1'' backroom
                 = (Inr (Some (note1\<lparr>n_isRead := True\<rparr>)), d')"
    by blast
  from markAsRead_authorization[OF f, of "''admin-hardcoded''"]
  have c3: "\<exists>d'. markAsRead ''admin-hardcoded'' ''n1'' backroom
                 = (Inr (Some (note1\<lparr>n_isRead := True\<rparr>)), d')"
    by blast
  from f a b c1 r c2 c3 show ?thesis by blast
qed

subsection \<open>The audit scan\<close>

text \<open>
  The loop of \<^verbatim>\<open>createNewAudit\<close> in closed form: the discrepancies of all products in
  order, and one entry for each product that has any.
\<close>

lemma fold_audit_step:
  "fold audit_step ps acc =
     (fst acc @ concat (map productDiscrepancies ps),
      snd acc @ map (\<lambda>p. \<lparr>r_productId = p_id p, r_name = p_name p, r_sku = p_sku p,
                           r_currentStock = p_stock p, r_status = p_status p,
                           r_discrepancies = productDiscrepancies p\<rparr>)
                    (filter (\<lambda>p. productDiscrepancies p \<noteq> []) ps))"
proof (induction ps arbitrary: acc)
  case Nil
  then show ?case by simp
next
  case (Cons p ps)
  show ?case
  proof (cases "productDiscrepancies p = []")
    case True
    then have "audit_step p acc = acc" by (simp add: audit_step_def)
    with Cons.IH[of acc] True show ?thesis by simp
  next
    case False
    then have "audit_step p acc =
        (fst acc @ productDiscrepancies p,
         snd acc @ [\<lparr>r_productId = p_id p, r_name = p_name p, r_sku = p_sku p,
                      r_currentStock = p_stock p, r_status = p_status p,
                      r_discrepancies = productDiscrepancies p\<rparr>])"
      by (simp add: audit_step_def Let_def)
    with Cons.IH[of "audit_step p acc"] False show ?thesis by simp
  qed
qed

lemma filter_distinct_key:
  "distinct (map f xs) \<Longrightarrow> x \<in> set xs \<Longrightarrow> filter (\<lambda>y. f y = f x) xs = [x]"
proof (induction xs)
  case Nil
  then show ?case by simp
next
  case (Cons a xs)
  show ?case
  proof (cases "a = x")
    case True
    with Cons.prems(1) have "f x \<notin> f ` set xs" by simp
    then have "\<forall>y\<in>set xs. f y \<noteq> f x" by (metis imageI)
    then have "filter (\<lambda>y. f y = f x) xs = []" by (simp add: filter_empty_conv)
    with True show ?thesis by simp
  next
    case False
    with Cons.prems have "x \<in> set xs" "f a \<noteq> f x" by auto
    with Cons show ?thesis by simp
  qed
qed

lemma findings_for_audit_loop:
  assumes "distinct (map p_id ps)" and "p \<in> set ps"
  shows "findings_for (p_id p) (snd (audit_loop ps)) = productDiscrepancies p"
proof -
  let ?mk = "\<lambda>p. \<lparr>r_productId = p_id p, r_name = p_name p, r_sku = p_sku p,
                   r_currentStock = p_stock p, r_status = p_status p,
                   r_discrepancies = productDiscrepancies p\<rparr>"
  have "snd (audit_loop ps) = map ?mk (filter (\<lambda>p. productDiscrepancies p \<noteq> []) ps)"
    by (simp add: audit_loop_def fold_audit_step)
  then have "filter (\<lambda>r. r_productId r = p_id p) (snd (audit_loop ps))
      = map ?mk (filter (\<lambda>x. productDiscrepancies x \<noteq> []) (filter (\<lambda>x. p_id x = p_id p) ps))"
    by (simp add: filter_map comp_def conj_commute)
  also have "\<dots> = map ?mk (filter (\<lambda>x. productDiscrepancies x \<noteq> []) [p])"
    using filter_distinct_key[OF assms] by simp
  finally show ?thesis
    by (simp add: findings_for_def)
qed

lemma dropWhile_keeps: "x \<in> set xs \<Longrightarrow> \<not> P x \<Longrightarrow> x \<in> set (dropWhile P xs)"
  by (induction xs) auto

lemma trim_nonempty: "x \<in> set s \<Longrightarrow> \<not> is_space x \<Longrightarrow> trim s \<noteq> []"
proof -
  assume a: "x \<in> set s" "\<not> is_space x"
  then have "x \<in> set (rev (dropWhile is_space s))"
    by (simp add: dropWhile_keeps)
  then have "x \<in> set (dropWhile is_space (rev (dropWhile is_space s)))"
    using a(2) by (rule dropWhile_keeps)
  then have "dropWhile is_space (rev (dropWhile is_space s)) \<noteq> []"
    by (metis empty_iff empty_set)
  then show ?thesis by (simp add: trim_def)
qed

text \<open>
  Every entry of the scan carries at least one discrepancy object, and the schema has
  Strings there: the record of an audit with a finding does not pass the validation of
  \<^verbatim>\<open>Audit.create\<close>.
\<close>

lemma audit_loop_results:
  "snd (audit_loop ps) =
     map (\<lambda>p. \<lparr>r_productId = p_id p, r_name = p_name p, r_sku = p_sku p,
                r_currentStock = p_stock p, r_status = p_status p,
                r_discrepancies = productDiscrepancies p\<rparr>)
         (filter (\<lambda>p. productDiscrepancies p \<noteq> []) ps)"
  by (simp add: audit_loop_def fold_audit_step)

lemma audit_loop_discrepancies: "fst (audit_loop ps) = concat (map productDiscrepancies ps)"
  by (simp add: audit_loop_def fold_audit_step)

lemma scan_uncastable:
  assumes "p \<in> set ps" and "productDiscrepancies p \<noteq> []"
  shows "cast_errors e (map as_detail (snd (audit_loop ps))) \<noteq> []"
proof -
  let ?r = "\<lparr>r_productId = p_id p, r_name = p_name p, r_sku = p_sku p,
             r_currentStock = p_stock p, r_status = p_status p,
             r_discrepancies = productDiscrepancies p\<rparr>"
  from assms have "?r \<in> set (snd (audit_loop ps))"
    by (simp add: audit_loop_results)
  then have mem: "as_detail ?r \<in> set (map as_detail (snd (audit_loop ps)))"
    by (metis imageI set_map)
  obtain x xs where "productDiscrepancies p = x # xs"
    using assms(2) by (cases "productDiscrepancies p") auto
  then have "\<not> list_all castable (dd_discrepancies (as_detail ?r))"
    by (simp add: as_detail_def castable_def)
  with mem show ?thesis by (rule cast_errors_uncastable)
qed

text \<open>Where any product has a finding, no audit is recorded.\<close>

lemma createNewAudit_rejects:
  assumes "p \<in> set (products d)" and "productDiscrepancies p \<noteq> []"
  shows "\<exists>msg. createNewAudit e userId d = (Inl (Failure 500 msg None), d)"
proof -
  let ?a = "\<lparr>a_id = fresh e 0, a_title = trim (''Inventory Audit - '' @ locale_date e (now e)),
             a_date = now e, a_status = ''in-progress'',
             a_discrepancies = length (fst (audit_loop (products d))),
             a_discrepancyDetails = map as_detail (snd (audit_loop (products d))),
             a_notes = trim ''Audit started by auditor'', a_createdBy = userId,
             a_createdAt = now e, a_updatedAt = now e\<rparr>"
  have "cast_errors e (a_discrepancyDetails ?a) \<noteq> []"
    using scan_uncastable[OF assms] by simp
  then have "audit_errors e ?a \<noteq> []" by (simp add: audit_errors_def)
  then obtain x xs where "audit_errors e ?a = x # xs"
    by (cases "audit_errors e ?a") auto
  then show ?thesis
    by (simp add: createNewAudit_def Audit_create_def Let_def)
qed

text \<open>An audit that is recorded holds no finding.\<close>

lemma createNewAudit_records_no_finding:
  assumes ok: "createNewAudit e userId d = (Inr reply, d')"
  shows "ar_auditResults reply = [] \<and> ar_totalDiscrepancies reply = 0 \<and>
         (\<exists>a. audits d' = audits d @ [a] \<and> a_status a = ''in-progress'' \<and>
              a_discrepancyDetails a = [] \<and> a_discrepancies a = 0)"
proof -
  have none: "productDiscrepancies p = []" if "p \<in> set (products d)" for p
  proof (rule ccontr)
    assume "productDiscrepancies p \<noteq> []"
    from createNewAudit_rejects[OF that this, of e userId] ok show False by auto
  qed
  then have "filter (\<lambda>p. productDiscrepancies p \<noteq> []) (products d) = []"
    by (simp add: filter_empty_conv)
  then have r: "snd (audit_loop (products d)) = []" by (simp add: audit_loop_results)
  from none have f: "fst (audit_loop (products d)) = []"
    by (simp add: audit_loop_discrepancies)
  from ok r f show ?thesis
    by (auto simp: createNewAudit_def Audit_create_def Let_def split: list.splits sum.splits)
qed

text \<open>With no finding in the stock, a caller with an id gets the audit recorded.\<close>

lemma createNewAudit_succeeds:
  assumes "userId \<noteq> []" and "\<forall>p\<in>set (products d). productDiscrepancies p = []"
  shows "\<exists>reply d'. createNewAudit e userId d = (Inr reply, d')"
proof -
  have "\<not> is_space CHR ''I''" by (simp add: is_space_def)
  then have t: "trim (''Inventory Audit - '' @ locale_date e (now e)) \<noteq> []"
    by (intro trim_nonempty[of "CHR ''I''"]) simp_all
  from assms(2) have "filter (\<lambda>p. productDiscrepancies p \<noteq> []) (products d) = []"
    by (simp add: filter_empty_conv)
  then have r: "snd (audit_loop (products d)) = []" by (simp add: audit_loop_results)
  with assms(1) t show ?thesis
    by (simp add: createNewAudit_def Audit_create_def audit_errors_def cast_errors_def Let_def)
qed

lemma clean_stock_audit_recorded:
  "fst (createNewAudit clock ''u4'' tidy) =
     Inr \<lparr>ar_auditId = ''id0'', ar_totalDiscrepancies = 0, ar_high = 0, ar_medium = 0,
          ar_low = 0, ar_auditResults = [],
          ar_summary = ''Audit completed. No discrepancies found.''\<rparr>"
  by code_simp

text \<open>
  The summary text of \<^verbatim>\<open>Auditor.auditInventory\<close> tests the threshold with
  \<^verbatim>\<open>status !== 'low-stock'\<close> alone: a product below its threshold whose status is
  out-of-stock gets a line in the summary and no finding in the scan.
\<close>

lemma summary_line_without_finding:
  "productDiscrepancies (spring\<lparr>p_status := ''out-of-stock''\<rparr>) = [] \<and>
   inventory_lines (spring\<lparr>p_status := ''out-of-stock''\<rparr>) =
     [''Product Spring (S9) is below threshold but status is out-of-stock'']"
  by code_simp

text \<open>
  C5 asks that the audit yields, for a product with stock 0 and status in-stock, exactly one
  finding, of type \<^verbatim>\<open>status_mismatch\<close> and severity medium. The handler does not yield
  it. The washer has stock 0, status in-stock and price 4, and it is the only product: the
  scan finds exactly that one discrepancy, \<^verbatim>\<open>Audit.create\<close> rejects the record that
  carries it, and the reply is HTTP 500 with the database as it was.
\<close>

theorem audit_of_zero_stock_rejected:
  "p_stock washer = 0 \<and> p_status washer = ''in-stock'' \<and> products washroom = [washer] \<and>
   findings_for ''p3'' (snd (audit_loop (products washroom))) =
     [\<lparr>d_type = ''status_mismatch'', d_message = ''Stock is 0 but status is in-stock'',
       d_severity = ''medium''\<rparr>] \<and>
   createNewAudit clock ''u4'' washroom =
     (Inl (Failure 500
             (''Audit validation failed: discrepancyDetails.0.discrepancies: '' @
              ''Cast failed at path discrepancyDetails.0.discrepancies'')
             None), washroom)"
  by code_simp

text \<open>
  C6 asks that the audit records a finding of type \<^verbatim>\<open>low_stock_mismatch\<close> and severity
  low exactly for the products with \<open>0 < stock \<le> lowStockThreshold\<close> and a status that is
  neither low-stock nor out-of-stock. The handler records none. The spring has stock 4,
  threshold 10 and status in-stock, and it is the only product: the scan finds the
  discrepancy, \<^verbatim>\<open>Audit.create\<close> rejects the record that carries it, the reply is
  HTTP 500 and no audit is stored.
\<close>

theorem audit_of_low_stock_rejected:
  "0 < p_stock spring \<and> p_stock spring \<le> p_lowStockThreshold spring \<and>
   p_status spring \<noteq> ''low-stock'' \<and> p_status spring \<noteq> ''out-of-stock'' \<and>
   products springroom = [spring] \<and>
   findings_for ''p4'' (snd (audit_loop (products springroom))) =
     [\<lparr>d_type = ''low_stock_mismatch'',
       d_message = ''Stock (4) is below threshold (10) but status is in-stock'',
       d_severity = ''low''\<rparr>] \<and>
   createNewAudit clock ''u4'' springroom =
     (Inl (Failure 500
             (''Audit validation failed: discrepancyDetails.0.discrepancies: '' @
              ''Cast failed at path discrepancyDetails.0.discrepancies'')
             None), springroom) \<and>
   audits (snd (createNewAudit clock ''u4'' springroom)) = []"
  by code_simp

subsection \<open>The low-stock report\<close>

lemma low_stock_three_way:
  "\<forall>p\<in>set ys. s p \<le> t p \<Longrightarrow>
     length ys = length (filter (\<lambda>p. s p = (0::int)) ys) +
                 length (filter (\<lambda>p. 0 < s p \<and> s p \<le> t p) ys) +
                 length (filter (\<lambda>p. s p < 0) ys)"
  by (induction ys) auto

lemma length_filter_mset: "length (filter P xs) = size {#x \<in># mset xs. P x#}"
  by (metis mset_filter size_mset)

text \<open>
  C7. Where no stored product has a negative stock, which the schema's \<^verbatim>\<open>min: 0\<close>
  holds on every write, the low-stock report returns exactly the products with
  \<open>stock \<le> lowStockThreshold\<close>, by ascending stock; \<open>criticalItems\<close> is the number of
  them with stock 0, \<open>warningItems\<close> the number with \<open>0 < stock \<le> lowStockThreshold\<close>,
  and \<open>totalLowStockItems\<close> is the number of products returned and the sum of the two
  counts.
\<close>

theorem lowStock_report:
  assumes nonneg: "\<forall>p\<in>set (products d). 0 \<le> p_stock p"
  shows "mset (lowStockProducts d) =
           {#p \<in># mset (products d). p_stock p \<le> p_lowStockThreshold p#} \<and>
         sorted (map p_stock (lowStockProducts d)) \<and>
         lr_products (generateReport_lowStock e d) =
           map (\<lambda>p. \<lparr>ls_id = p_id p, ls_name = p_name p, ls_sku = p_sku p,
                      ls_category = p_category p, ls_stock = p_stock p,
                      ls_lowStockThreshold = p_lowStockThreshold p, ls_status = p_status p,
                      ls_needsAttention = True\<rparr>) (lowStockProducts d) \<and>
         criticalItems (lr_summary (generateReport_lowStock e d)) =
           size {#p \<in># mset (products d). p_stock p \<le> p_lowStockThreshold p \<and> p_stock p = 0#} \<and>
         warningItems (lr_summary (generateReport_lowStock e d)) =
           size {#p \<in># mset (products d). 0 < p_stock p \<and> p_stock p \<le> p_lowStockThreshold p#} \<and>
         totalLowStockItems (lr_summary (generateReport_lowStock e d)) =
           size {#p \<in># mset (products d). p_stock p \<le> p_lowStockThreshold p#} \<and>
         totalLowStockItems (lr_summary (generateReport_lowStock e d)) =
           criticalItems (lr_summary (generateReport_lowStock e d)) +
           warningItems (lr_summary (generateReport_lowStock e d))"
proof -
  let ?low = "lowStockProducts d"
  let ?r = "generateReport_lowStock e d"
  have ms: "mset ?low = {#p \<in># mset (products d). p_stock p \<le> p_lowStockThreshold p#}"
    by (simp add: lowStockProducts_def)
  have so: "sorted (map p_stock ?low)"
    unfolding lowStockProducts_def by (simp add: sorted_filter)
  have all: "\<forall>p\<in>set ?low. p_stock p \<le> p_lowStockThreshold p"
    by (simp add: lowStockProducts_def)
  have rows: "lr_products ?r =
     map (\<lambda>p. \<lparr>ls_id = p_id p, ls_name = p_name p, ls_sku = p_sku p,
                ls_category = p_category p, ls_stock = p_stock p,
                ls_lowStockThreshold = p_lowStockThreshold p, ls_status = p_status p,
                ls_needsAttention = True\<rparr>) ?low"
    using all by (simp add: generateReport_lowStock_def)
  have tot: "totalLowStockItems (lr_summary ?r) =
      size {#p \<in># mset (products d). p_stock p \<le> p_lowStockThreshold p#}"
    using ms by (simp add: generateReport_lowStock_def flip: size_mset)
  have c1: "{#p \<in># mset ?low. p_stock p = 0#} =
      {#p \<in># mset (products d). p_stock p \<le> p_lowStockThreshold p \<and> p_stock p = 0#}"
    unfolding ms by (simp add: filter_filter_mset conj_commute)
  have c2: "{#p \<in># mset ?low. 0 < p_stock p \<and> p_stock p \<le> p_lowStockThreshold p#} =
      {#p \<in># mset (products d). 0 < p_stock p \<and> p_stock p \<le> p_lowStockThreshold p#}"
    unfolding ms by (auto simp: filter_filter_mset intro: filter_mset_cong)
  have crit: "criticalItems (lr_summary ?r) =
      size {#p \<in># mset (products d). p_stock p \<le> p_lowStockThreshold p \<and> p_stock p = 0#}"
    using c1 by (simp add: generateReport_lowStock_def length_filter_mset)
  have warn: "warningItems (lr_summary ?r) =
      size {#p \<in># mset (products d). 0 < p_stock p \<and> p_stock p \<le> p_lowStockThreshold p#}"
    using c2 by (simp add: generateReport_lowStock_def length_filter_mset)
  have split: "totalLowStockItems (lr_summary ?r) =
      criticalItems (lr_summary ?r) + warningItems (lr_summary ?r) +
      length (filter (\<lambda>p. p_stock p < 0) ?low)"
    using low_stock_three_way[OF all] by (simp add: generateReport_lowStock_def)
  from nonneg have "\<forall>p\<in>set ?low. \<not> p_stock p < 0"
    by (auto simp: lowStockProducts_def)
  then have "filter (\<lambda>p. p_stock p < 0) ?low = []"
    by (simp add: filter_empty_conv)
  with split have sum: "totalLowStockItems (lr_summary ?r) =
      criticalItems (lr_summary ?r) + warningItems (lr_summary ?r)"
    by simp
  show ?thesis
    by (intro conjI) (rule ms, rule so, rule rows, rule crit, rule warn, rule tot, rule sum)
qed

theorem lowStock_report_witness:
  "map p_stock (products backroom) = [5, 0, 0, 4] \<and>
   map ls_id (lr_products (generateReport_lowStock clock backroom)) =
     [''p2'', ''p3'', ''p4'', ''p1''] \<and>
   lr_summary (generateReport_lowStock clock backroom)
     = \<lparr>totalLowStockItems = 4, criticalItems = 2, warningItems = 2\<rparr> \<and>
   totalLowStockItems (lr_summary (generateReport_lowStock clock backroom)) =
     criticalItems (lr_summary (generateReport_lowStock clock backroom)) +
     warningItems (lr_summary (generateReport_lowStock clock backroom))"
proof -
  have st: "map p_stock (products backroom) = [5, 0, 0, 4]"
    by (simp add: backroom_def widget_def gasket_def washer_def spring_def)
  have h: "\<forall>p\<in>set (products backroom). 0 \<le> p_stock p"
    by (simp add: backroom_def widget_def gasket_def washer_def spring_def)
  have rows: "map ls_id (lr_products (generateReport_lowStock clock backroom)) =
     [''p2'', ''p3'', ''p4'', ''p1'']"
    by code_simp
  have s: "lr_summary (generateReport_lowStock clock backroom)
     = \<lparr>totalLowStockItems = 4, criticalItems = 2, warningItems = 2\<rparr>"
    by code_simp
  from lowStock_report[OF h, of clock]
  have sum: "totalLowStockItems (lr_summary (generateReport_lowStock clock backroom)) =
     criticalItems (lr_summary (generateReport_lowStock clock backroom)) +
     warningItems (lr_summary (generateReport_lowStock clock backroom))"
    by blast
  show ?thesis
    by (intro conjI) (rule st, rule rows, rule s, rule sum)
qed

subsection \<open>Reorder requests\<close>

lemma image_constant: "x \<in> A \<Longrightarrow> \<forall>y\<in>A. f y = k \<Longrightarrow> f ` A = {k}"
  by auto

text \<open>
  C8. For a stored product, \<^verbatim>\<open>requestReorder\<close> succeeds and appends one notification for
  each user with role manager, in their order and addressed to them, and nothing else: with
  \<open>n\<close> managers exactly \<open>n\<close> notifications, each of type reorder, sent by the caller, about
  the product, and unread. Where user ids are distinct, as \<^verbatim>\<open>_id\<close> is, the recipients are
  distinct and no user of another role is among them.
\<close>

theorem requestReorder_fanout:
  assumes found: "findById_product productId d = Some p"
    and nonempty: "productId \<noteq> []"
  shows "\<exists>reply new.
           requestReorder e clerkId (Some productId) d
             = (Inr reply, d\<lparr>notifications := notifications d @ new\<rparr>) \<and>
           map n_recipient new = map u_id (filter (\<lambda>u. u_role u = ''manager'') (users d)) \<and>
           length new = length (filter (\<lambda>u. u_role u = ''manager'') (users d)) \<and>
           rr_notificationsSent reply = length new \<and>
           (\<forall>n\<in>set new. n_type n = ''reorder'' \<and> n_sender n = clerkId \<and>
                         n_relatedProduct n = Some productId \<and> \<not> n_isRead n) \<and>
           (distinct (map u_id (users d)) \<longrightarrow>
              distinct (map n_recipient new) \<and>
              (\<forall>u\<in>set (users d). u_role u \<noteq> ''manager'' \<longrightarrow> u_id u \<notin> set (map n_recipient new)))"
proof -
  let ?managers = "filter (\<lambda>u. u_role u = ''manager'') (users d)"
  let ?msg = "''Reorder request for '' @ p_name p @ '' (current stock: '' @
              show_int (p_stock p) @ '' units). SKU: '' @ p_sku p"
  let ?meta = "[(''productName'', MStr (p_name p)), (''sku'', MStr (p_sku p)),
                (''currentStock'', MNum (p_stock p)),
                (''reorderLevel'', MNum (p_lowStockThreshold p)),
                (''category'', MStr (p_category p))]"
  obtain new d1 where se:
    "send_each e 0 ?msg ''reorder'' clerkId (Some productId) ?meta ?managers d = (new, d1)"
    by (meson surj_pair)
  note sa = send_each_appends[OF se]
  let ?reply = "\<lparr>rr_id = p_id p, rr_name = p_name p, rr_sku = p_sku p, rr_stock = p_stock p,
                 rr_reorderLevel = p_lowStockThreshold p, rr_notificationsSent = length new\<rparr>"
  have run: "requestReorder e clerkId (Some productId) d
               = (Inr ?reply, d\<lparr>notifications := notifications d @ new\<rparr>)"
    using found nonempty se sa by (simp add: requestReorder_def)
  have rec: "map n_recipient new = map u_id ?managers" using sa by simp
  then have len: "length new = length ?managers" by (metis length_map)
  have each: "\<forall>n\<in>set new. n_type n = ''reorder'' \<and> n_sender n = clerkId \<and>
                         n_relatedProduct n = Some productId \<and> \<not> n_isRead n"
    using sa by simp
  have dist: "distinct (map n_recipient new) \<and>
      (\<forall>u\<in>set (users d). u_role u \<noteq> ''manager'' \<longrightarrow> u_id u \<notin> set (map n_recipient new))"
    if ids: "distinct (map u_id (users d))"
  proof
    show "distinct (map n_recipient new)"
      unfolding rec using ids by (rule distinct_map_filter)
    show "\<forall>u\<in>set (users d). u_role u \<noteq> ''manager'' \<longrightarrow> u_id u \<notin> set (map n_recipient new)"
    proof (intro ballI impI notI)
      fix u assume u: "u \<in> set (users d)" "u_role u \<noteq> ''manager''"
        and "u_id u \<in> set (map n_recipient new)"
      then obtain m where m: "m \<in> set (users d)" "u_role m = ''manager''" "u_id m = u_id u"
        unfolding rec by auto
      from ids have "inj_on u_id (set (users d))" by (simp add: distinct_map)
      with m(1,3) u(1) have "m = u" by (auto dest: inj_onD)
      with m(2) u(2) show False by simp
    qed
  qed
  from run rec len each dist show ?thesis
    by (intro exI[of _ ?reply] exI[of _ new]) simp
qed

text \<open>The spec's example: three managers in the system, three notifications.\<close>

theorem requestReorder_fanout_witness:
  "findById_product ''p1'' backroom = Some widget \<and> ''p1'' \<noteq> [] \<and>
   distinct (map u_id (users backroom)) \<and>
   (\<exists>reply new.
      requestReorder clock (Some ''u2'') (Some ''p1'') backroom
        = (Inr reply, backroom\<lparr>notifications := notifications backroom @ new\<rparr>) \<and>
      map n_recipient new = [''u1'', ''u3'', ''u5''] \<and> length new = 3 \<and>
      rr_notificationsSent reply = 3 \<and> distinct (map n_recipient new) \<and>
      n_type ` set new = {''reorder''})"
proof -
  have f: "findById_product ''p1'' backroom = Some widget" by code_simp
  have ne: "''p1'' \<noteq> []" by simp
  have ids: "distinct (map u_id (users backroom))" by code_simp
  have ms: "map u_id (filter (\<lambda>u. u_role u = ''manager'') (users backroom))
              = [''u1'', ''u3'', ''u5'']"
    by code_simp
  from requestReorder_fanout[OF f ne, of clock "Some ''u2''"] obtain reply new where
    r: "requestReorder clock (Some ''u2'') (Some ''p1'') backroom
         = (Inr reply, backroom\<lparr>notifications := notifications backroom @ new\<rparr>)"
      "map n_recipient new = map u_id (filter (\<lambda>u. u_role u = ''manager'') (users backroom))"
      "rr_notificationsSent reply = length new"
      "\<forall>n\<in>set new. n_type n = ''reorder''"
      "distinct (map u_id (users backroom)) \<longrightarrow> distinct (map n_recipient new)"
    by blast
  from r(2) ms have rec: "map n_recipient new = [''u1'', ''u3'', ''u5'']" by simp
  then have len: "length new = 3"
    by (metis length_map length_Cons list.size(3) numeral_3_eq_3)
  from r(3) len have sent: "rr_notificationsSent reply = 3" by (rule trans)
  from r(5) ids have dist: "distinct (map n_recipient new)" by (rule mp)
  have img: "n_type ` set new = {''reorder''}"
  proof -
    from len have "new \<noteq> []" by (metis list.size(3) zero_neq_numeral)
    then obtain n where "n \<in> set new" by (meson last_in_set)
    then show ?thesis using r(4) by (rule image_constant)
  qed
  have "requestReorder clock (Some ''u2'') (Some ''p1'') backroom
        = (Inr reply, backroom\<lparr>notifications := notifications backroom @ new\<rparr>) \<and>
      map n_recipient new = [''u1'', ''u3'', ''u5''] \<and> length new = 3 \<and>
      rr_notificationsSent reply = 3 \<and> distinct (map n_recipient new) \<and>
      n_type ` set new = {''reorder''}"
    by (intro conjI) (rule r(1), rule rec, rule len, rule sent, rule dist, rule img)
  then have "\<exists>reply new.
      requestReorder clock (Some ''u2'') (Some ''p1'') backroom
        = (Inr reply, backroom\<lparr>notifications := notifications backroom @ new\<rparr>) \<and>
      map n_recipient new = [''u1'', ''u3'', ''u5''] \<and> length new = 3 \<and>
      rr_notificationsSent reply = 3 \<and> distinct (map n_recipient new) \<and>
      n_type ` set new = {''reorder''}"
    by (intro exI)
  then show ?thesis by (intro conjI) (rule f, rule ne, rule ids)
qed

end
